theory Spec2Isabelle
  imports Main "HOL-Library.Product_Lexorder"
begin

section \<open>JSON values and the Python operations applied to them\<close>

text \<open>
  Every value the handlers touch arrives as parsed JSON: the webhook envelope, the
  registration body and whatever the record store returns. Objects keep their
  insertion order, as Python dicts do, so an object is an association list.
  Numbers are restricted to integers. A character is a code point below 256, so a
  string is text of the Latin-1 range; text with other code points is not modelled.
\<close>

datatype json =
    JNull
  | JBool bool
  | JNum int
  | JStr string
  | JArr "json list"
  | JObj "(string \<times> json) list"

datatype error =
    KeyError | IndexError | TypeError | AttributeError | ValueError
  | StoreError | SendError | ApiError

definition bindE :: "error + 'a \<Rightarrow> ('a \<Rightarrow> error + 'b) \<Rightarrow> error + 'b" where
  "bindE r f = (case r of Inl e \<Rightarrow> Inl e | Inr x \<Rightarrow> f x)"

text \<open>Python truth value of a JSON value (\<open>if x:\<close>, \<open>not x\<close>, \<open>x or y\<close>).\<close>

fun truthy :: "json \<Rightarrow> bool" where
  "truthy JNull = False"
| "truthy (JBool b) = b"
| "truthy (JNum n) = (n \<noteq> 0)"
| "truthy (JStr s) = (s \<noteq> [])"
| "truthy (JArr xs) = (xs \<noteq> [])"
| "truthy (JObj kvs) = (kvs \<noteq> [])"

text \<open>\<open>v[key]\<close> with a string key.\<close>

fun py_getitem :: "json \<Rightarrow> string \<Rightarrow> error + json" where
  "py_getitem (JObj kvs) key = (case map_of kvs key of None \<Rightarrow> Inl KeyError | Some v \<Rightarrow> Inr v)"
| "py_getitem _ key = Inl TypeError"

text \<open>\<open>v[0]\<close>: the first element of a list, the first character of a string; an
  object has string keys only, so the integer key is never found.\<close>

fun py_index0 :: "json \<Rightarrow> error + json" where
  "py_index0 (JArr []) = Inl IndexError"
| "py_index0 (JArr (x # xs)) = Inr x"
| "py_index0 (JStr []) = Inl IndexError"
| "py_index0 (JStr (c # cs)) = Inr (JStr [c])"
| "py_index0 (JObj kvs) = Inl KeyError"
| "py_index0 _ = Inl TypeError"

text \<open>\<open>v.get(key, default)\<close>: only a dict has the method.\<close>

fun py_get :: "json \<Rightarrow> string \<Rightarrow> json \<Rightarrow> error + json" where
  "py_get (JObj kvs) key dflt = Inr (case map_of kvs key of None \<Rightarrow> dflt | Some v \<Rightarrow> v)"
| "py_get _ key dflt = Inl AttributeError"

text \<open>\<open>{**details, key: v}\<close>: an existing key keeps its position, a new key is appended.\<close>

fun dict_set :: "string \<Rightarrow> json \<Rightarrow> (string \<times> json) list \<Rightarrow> (string \<times> json) list" where
  "dict_set k v [] = [(k, v)]"
| "dict_set k v ((k', v') # kvs) = (if k' = k then (k, v) # kvs else (k', v') # dict_set k v kvs)"

subsection \<open>Strings\<close>

text \<open>
  The whitespace of \<open>str.strip()\<close> and \<open>str.split()\<close> among the code points below
  256: tab to carriage return, the four separators, the space, the next-line
  character U+0085 and the no-break space U+00A0.
\<close>

definition py_isspace :: "char \<Rightarrow> bool" where
  "py_isspace c =
     (let n = (of_char c :: nat)
      in (9 \<le> n \<and> n \<le> 13) \<or> (28 \<le> n \<and> n \<le> 32) \<or> n = 133 \<or> n = 160)"

definition py_strip :: "string \<Rightarrow> string" where
  "py_strip s = rev (dropWhile py_isspace (rev (dropWhile py_isspace s)))"

text \<open>
  \<open>str.lower()\<close>, character by character: the letters A to Z, and the capital
  letters of the Latin-1 range, U+00C0 to U+00DE without the multiplication sign.
\<close>

definition latin1_upper :: string where
  "latin1_upper =
     [CHR 0xC0, CHR 0xC1, CHR 0xC2, CHR 0xC3, CHR 0xC4, CHR 0xC5, CHR 0xC6, CHR 0xC7, CHR 0xC8, CHR 0xC9, CHR 0xCA, CHR 0xCB, CHR 0xCC, CHR 0xCD, CHR 0xCE, CHR 0xCF, CHR 0xD0, CHR 0xD1, CHR 0xD2, CHR 0xD3, CHR 0xD4, CHR 0xD5, CHR 0xD6, CHR 0xD8, CHR 0xD9, CHR 0xDA, CHR 0xDB, CHR 0xDC, CHR 0xDD, CHR 0xDE]"

definition latin1_lower :: string where
  "latin1_lower =
     [CHR 0xE0, CHR 0xE1, CHR 0xE2, CHR 0xE3, CHR 0xE4, CHR 0xE5, CHR 0xE6, CHR 0xE7, CHR 0xE8, CHR 0xE9, CHR 0xEA, CHR 0xEB, CHR 0xEC, CHR 0xED, CHR 0xEE, CHR 0xEF, CHR 0xF0, CHR 0xF1, CHR 0xF2, CHR 0xF3, CHR 0xF4, CHR 0xF5, CHR 0xF6, CHR 0xF8, CHR 0xF9, CHR 0xFA, CHR 0xFB, CHR 0xFC, CHR 0xFD, CHR 0xFE]"

definition lower_char :: "char \<Rightarrow> char" where
  "lower_char c =
     (case map_of (zip (''ABCDEFGHIJKLMNOPQRSTUVWXYZ'' @ latin1_upper)
                       (''abcdefghijklmnopqrstuvwxyz'' @ latin1_lower)) c of
        None \<Rightarrow> c
      | Some l \<Rightarrow> l)"

definition py_lower :: "string \<Rightarrow> string" where
  "py_lower s = map lower_char s"

fun startswith :: "string \<Rightarrow> string \<Rightarrow> bool" where
  "startswith s [] = True"
| "startswith [] (p # ps) = False"
| "startswith (c # cs) (p # ps) = (c = p \<and> startswith cs ps)"

text \<open>\<open>sub in s\<close> on strings.\<close>

fun py_substring :: "string \<Rightarrow> string \<Rightarrow> bool" where
  "py_substring sub [] = (sub = [])"
| "py_substring sub (c # cs) = (startswith (c # cs) sub \<or> py_substring sub cs)"

text \<open>\<open>s.split()\<close>: the maximal runs of non-whitespace characters. The first
  argument is the current run, reversed.\<close>

fun split_ws :: "string \<Rightarrow> string \<Rightarrow> string list" where
  "split_ws cur [] = (if cur = [] then [] else [rev cur])"
| "split_ws cur (c # cs) =
     (if py_isspace c then (if cur = [] then split_ws [] cs else rev cur # split_ws [] cs)
      else split_ws (c # cur) cs)"

definition py_split :: "string \<Rightarrow> string list" where
  "py_split s = split_ws [] s"

fun py_join :: "string \<Rightarrow> string list \<Rightarrow> string" where
  "py_join sep [] = []"
| "py_join sep [x] = x"
| "py_join sep (x # y # ys) = x @ sep @ py_join sep (y # ys)"

subsection \<open>Formatting a value into an f-string\<close>

definition digit_char :: "nat \<Rightarrow> char" where
  "digit_char n = ''0123456789'' ! (n mod 10)"

fun dec_digits :: "nat \<Rightarrow> string" where
  "dec_digits n = (if n < 10 then [digit_char n] else dec_digits (n div 10) @ [digit_char n])"

definition int_str :: "int \<Rightarrow> string" where
  "int_str i = (if i < 0 then CHR ''-'' # dec_digits (nat (- i)) else dec_digits (nat i))"

definition hex_char :: "nat \<Rightarrow> char" where
  "hex_char n = ''0123456789abcdef'' ! (n mod 16)"

text \<open>\<open>repr\<close> of a string: single quotes unless the text has a single quote and no
  double quote; backslash, the quote, tab, newline and carriage return are escaped,
  the other characters that are not printable (the control characters, U+007F to
  U+00A0 and the soft hyphen U+00AD) are written \<open>\xhh\<close>.\<close>

definition repr_char :: "char \<Rightarrow> char \<Rightarrow> string" where
  "repr_char q c =
     (let n = (of_char c :: nat) in
      if n = 92 then [c, c]
      else if c = q then [CHR 0x5C, c]
      else if n = 9 then [CHR 0x5C, CHR ''t'']
      else if n = 10 then [CHR 0x5C, CHR ''n'']
      else if n = 13 then [CHR 0x5C, CHR ''r'']
      else if n < 32 \<or> (127 \<le> n \<and> n \<le> 160) \<or> n = 173
        then [CHR 0x5C, CHR ''x'', hex_char (n div 16), hex_char (n mod 16)]
      else [c])"

definition repr_str :: "string \<Rightarrow> string" where
  "repr_str s =
     (let q = (if CHR 0x27 \<in> set s \<and> CHR 0x22 \<notin> set s then CHR 0x22 else CHR 0x27)
      in [q] @ concat (map (repr_char q) s) @ [q])"

fun py_repr :: "json \<Rightarrow> string" where
  "py_repr JNull = ''None''"
| "py_repr (JBool b) = (if b then ''True'' else ''False'')"
| "py_repr (JNum n) = int_str n"
| "py_repr (JStr s) = repr_str s"
| "py_repr (JArr xs) = ''['' @ py_join '', '' (map py_repr xs) @ '']''"
| "py_repr (JObj kvs) =
     ''{'' @ py_join '', '' (map (\<lambda>kv. repr_str (fst kv) @ '': '' @ py_repr (snd kv)) kvs) @ ''}''"

text \<open>\<open>f'{v}'\<close>, that is \<open>str(v)\<close>: a string is inserted as it is.\<close>

fun py_str :: "json \<Rightarrow> string" where
  "py_str (JStr s) = s"
| "py_str v = py_repr v"

section \<open>Calendar dates\<close>

text \<open>
  A date is (year, month, day); the library order on triples is the lexicographic
  one, which is the chronological order of \<open>datetime.date\<close>.
\<close>

type_synonym date = "nat \<times> nat \<times> nat"

definition is_digit :: "char \<Rightarrow> bool" where
  "is_digit c = (c \<in> set ''0123456789'')"

definition digit_val :: "char \<Rightarrow> nat" where
  "digit_val c = (of_char c :: nat) - 48"

definition leap_year :: "nat \<Rightarrow> bool" where
  "leap_year y = (y mod 4 = 0 \<and> (y mod 100 \<noteq> 0 \<or> y mod 400 = 0))"

definition days_in_month :: "nat \<Rightarrow> nat \<Rightarrow> nat" where
  "days_in_month y m =
     (if m = 2 then (if leap_year y then 29 else 28)
      else if m \<in> set [4, 6, 9, 11] then 30 else 31)"

text \<open>The month field of the format \<open>%m\<close>: \<open>1[0-2]|0[1-9]|[1-9]\<close>.\<close>

definition month_field :: "string \<Rightarrow> nat option" where
  "month_field s =
     (case s of
        [a] \<Rightarrow> if a \<in> set ''123456789'' then Some (digit_val a) else None
      | [a, b] \<Rightarrow>
          if (a = CHR ''1'' \<and> b \<in> set ''012'') \<or> (a = CHR ''0'' \<and> b \<in> set ''123456789'')
          then Some (10 * digit_val a + digit_val b) else None
      | _ \<Rightarrow> None)"

text \<open>The day field of the format \<open>%d\<close>: \<open>3[0-1]|[1-2]\d|0[1-9]|[1-9]| [1-9]\<close>.\<close>

definition day_field :: "string \<Rightarrow> nat option" where
  "day_field s =
     (case s of
        [a] \<Rightarrow> if a \<in> set ''123456789'' then Some (digit_val a) else None
      | [a, b] \<Rightarrow>
          if (a = CHR ''3'' \<and> b \<in> set ''01'') \<or> (a \<in> set ''12'' \<and> is_digit b)
             \<or> (a = CHR ''0'' \<and> b \<in> set ''123456789'')
          then Some (10 * digit_val a + digit_val b)
          else if a = CHR '' '' \<and> b \<in> set ''123456789'' then Some (digit_val b)
          else None
      | _ \<Rightarrow> None)"

text \<open>
  \<open>datetime.strptime(s, '%Y-%m-%d').date()\<close> on a string: four digits, a dash, the
  month field, a dash, the day field and nothing after it; then the date has to
  exist (year at least 1, day within the month). \<open>None\<close> is the \<open>ValueError\<close>.
\<close>

definition strptime_ymd :: "string \<Rightarrow> date option" where
  "strptime_ymd s =
     (case s of
        y1 # y2 # y3 # y4 # dash # rest \<Rightarrow>
          if is_digit y1 \<and> is_digit y2 \<and> is_digit y3 \<and> is_digit y4 \<and> dash = CHR ''-'' then
            (case dropWhile (\<lambda>c. c \<noteq> CHR ''-'') rest of
               [] \<Rightarrow> None
             | dash2 # dtxt \<Rightarrow>
                 (case (month_field (takeWhile (\<lambda>c. c \<noteq> CHR ''-'') rest), day_field dtxt) of
                    (Some m, Some d) \<Rightarrow>
                      (let y = 1000 * digit_val y1 + 100 * digit_val y2 + 10 * digit_val y3
                               + digit_val y4
                       in if 1 \<le> y \<and> d \<le> days_in_month y m then Some (y, m, d) else None)
                  | _ \<Rightarrow> None))
          else None
      | _ \<Rightarrow> None)"

text \<open>The same call on any JSON value: an argument that is not a string is a \<open>TypeError\<close>.\<close>

fun strptime :: "json \<Rightarrow> error + date" where
  "strptime (JStr s) = (case strptime_ymd s of None \<Rightarrow> Inl ValueError | Some d \<Rightarrow> Inr d)"
| "strptime _ = Inl TypeError"

section \<open>The record store, the outbound sender and the assistant\<close>

text \<open>
  The store is one JSON tree addressed by slash-separated paths: reading an absent
  node gives \<open>None\<close>, writing replaces the whole subtree at the path and creates
  the objects on the way to it.
\<close>

fun split_path :: "string \<Rightarrow> string list" where
  "split_path [] = [[]]"
| "split_path (c # cs) =
     (if c = CHR ''/'' then [] # split_path cs
      else (case split_path cs of [] \<Rightarrow> [[c]] | w # ws \<Rightarrow> (c # w) # ws))"

definition segments :: "string \<Rightarrow> string list" where
  "segments path = filter (\<lambda>seg. seg \<noteq> []) (split_path path)"

fun db_get :: "json \<Rightarrow> string list \<Rightarrow> json" where
  "db_get v [] = v"
| "db_get (JObj kvs) (k # ks) = (case map_of kvs k of None \<Rightarrow> JNull | Some c \<Rightarrow> db_get c ks)"
| "db_get _ (k # ks) = JNull"

fun db_set :: "json \<Rightarrow> string list \<Rightarrow> json \<Rightarrow> json" where
  "db_set node [] v = v"
| "db_set (JObj kvs) (k # ks) v =
     JObj (dict_set k (db_set (case map_of kvs k of None \<Rightarrow> JNull | Some c \<Rightarrow> c) ks v) kvs)"
| "db_set _ (k # ks) v = JObj [(k, db_set JNull ks v)]"

text \<open>
  Every call that leaves the process is recorded, with whether it completed. The
  environment fixes the date, which calls raise (the n-th call of a request raises
  when \<open>faults env n\<close>), and what the assistant answers.
\<close>

datatype event =
    DbGet string
  | DbSet string json
  | Send json string
  | Chat string

record state =
  db :: json
  trace :: "(event \<times> bool) list"

record env =
  today :: date
  faults :: "nat \<Rightarrow> bool"
  assistant :: "string \<Rightarrow> string"

type_synonym 'a action = "state \<Rightarrow> (error + 'a) \<times> state"

definition returnA :: "'a \<Rightarrow> 'a action" where
  "returnA x s = (Inr x, s)"

definition raiseA :: "error \<Rightarrow> 'a action" where
  "raiseA e s = (Inl e, s)"

definition liftE :: "error + 'a \<Rightarrow> 'a action" where
  "liftE r s = (r, s)"

definition bindA :: "'a action \<Rightarrow> ('a \<Rightarrow> 'b action) \<Rightarrow> 'b action" where
  "bindA m f s = (case m s of (Inl e, s') \<Rightarrow> (Inl e, s') | (Inr x, s') \<Rightarrow> f x s')"

text \<open>\<open>try: m  except Exception: h\<close>.\<close>

definition try_except :: "'a action \<Rightarrow> (error \<Rightarrow> 'a action) \<Rightarrow> 'a action" where
  "try_except m h s = (case m s of (Inl e, s') \<Rightarrow> h e s' | (Inr x, s') \<Rightarrow> (Inr x, s'))"

definition external :: "env \<Rightarrow> event \<Rightarrow> state \<Rightarrow> bool \<times> state" where
  "external env ev s =
     (let ok = \<not> faults env (length (trace s))
      in (ok, s\<lparr>trace := trace s @ [(ev, ok)]\<rparr>))"

text \<open>
  \<open>db.reference(path)\<close> refuses, with a \<open>ValueError\<close> and before anything is sent
  to the store, a path that has one of the characters \<open>[ ] . ? # $\<close>.
\<close>

definition illegal_path :: "string \<Rightarrow> bool" where
  "illegal_path path = list_ex (\<lambda>ch. ch \<in> set path) ''[].?#$''"

text \<open>\<open>db.reference(path).get()\<close>\<close>

definition ref_get :: "env \<Rightarrow> string \<Rightarrow> json action" where
  "ref_get env path s =
     (if illegal_path path then (Inl ValueError, s)
      else
        (case external env (DbGet path) s of
           (ok, s') \<Rightarrow>
             if ok then (Inr (db_get (db s') (segments path)), s') else (Inl StoreError, s')))"

text \<open>\<open>db.reference(path).set(v)\<close>; a call that raises leaves the store as it was.\<close>

definition ref_set :: "env \<Rightarrow> string \<Rightarrow> json \<Rightarrow> unit action" where
  "ref_set env path v s =
     (if illegal_path path then (Inl ValueError, s)
      else
        (case external env (DbSet path v) s of
           (ok, s') \<Rightarrow>
             if ok then (Inr (), s'\<lparr>db := db_set (db s') (segments path) v\<rparr>)
             else (Inl StoreError, s')))"

definition send_whatsapp_message :: "env \<Rightarrow> json \<Rightarrow> string \<Rightarrow> unit action" where
  "send_whatsapp_message env to message s =
     (case external env (Send to message) s of
        (ok, s') \<Rightarrow> if ok then (Inr (), s') else (Inl SendError, s'))"

text \<open>\<open>client.chat.completions.create(...)\<close> and the content of its first choice.\<close>

definition chat_completion :: "env \<Rightarrow> string \<Rightarrow> string action" where
  "chat_completion env body s =
     (case external env (Chat body) s of
        (ok, s') \<Rightarrow> if ok then (Inr (assistant env body), s') else (Inl ApiError, s'))"

section \<open>The helpers of the application\<close>

text \<open>\<open>key in v\<close>: a key of a dict, an element of a list, a substring of a string.\<close>

fun py_contains :: "json \<Rightarrow> string \<Rightarrow> error + bool" where
  "py_contains (JObj kvs) key = Inr (key \<in> set (map fst kvs))"
| "py_contains (JArr xs) key = Inr (JStr key \<in> set xs)"
| "py_contains (JStr s) key = Inr (py_substring key s)"
| "py_contains _ key = Inl TypeError"

text \<open>\<open>ref.get() or {}\<close>\<close>

definition or_empty_dict :: "json \<Rightarrow> json" where
  "or_empty_dict fetched = (if truthy fetched then fetched else JObj [])"

fun is_dict :: "json \<Rightarrow> bool" where
  "is_dict (JObj kvs) = True"
| "is_dict _ = False"

text \<open>
  \<open>get_department\<close>: the body of the \<open>try\<close> either returns the field (\<open>Some\<close>) or
  runs to its end (\<open>None\<close>); the handler of \<open>except Exception\<close> prints and runs on;
  after both comes \<open>return 'SE'\<close>.
\<close>

definition get_department :: "env \<Rightarrow> json \<Rightarrow> json action" where
  "get_department env whatsapp =
     bindA
       (try_except
          (bindA (ref_get env (''students/'' @ py_str whatsapp)) (\<lambda>data.
             if truthy data \<and> is_dict data \<and> py_contains data ''department'' = Inr True
             then bindA (liftE (py_getitem data ''department'')) (\<lambda>d. returnA (Some d))
             else returnA None))
          (\<lambda>e. returnA None))
       (\<lambda>returned. case returned of Some d \<Rightarrow> returnA d | None \<Rightarrow> returnA (JStr ''SE''))"

text \<open>\<open>classes.items()\<close>, \<open>classes.keys()\<close>: methods of a dict only.\<close>

fun py_items :: "json \<Rightarrow> error + (string \<times> json) list" where
  "py_items (JObj kvs) = Inr kvs"
| "py_items _ = Inl AttributeError"

fun py_keys :: "json \<Rightarrow> error + string list" where
  "py_keys (JObj kvs) = Inr (map fst kvs)"
| "py_keys _ = Inl AttributeError"

text \<open>\<open>not next_class\<close>: true of \<open>None\<close> and of the empty dict.\<close>

definition not_next_class :: "(string \<times> json) list option \<Rightarrow> bool" where
  "not_next_class next_class = (case next_class of None \<Rightarrow> True | Some nc \<Rightarrow> nc = [])"

text \<open>
  The body of the loop of \<open>get_next_class\<close> for one item; \<open>Inl\<close> is an exception,
  which the inner handler catches before the loop goes on.
\<close>

definition consider_class ::
  "date \<Rightarrow> string \<Rightarrow> json \<Rightarrow> (string \<times> json) list option \<Rightarrow> error + (string \<times> json) list option"
where
  "consider_class now code details next_class =
     (case details of
        JObj d \<Rightarrow>
          bindE (py_get details ''date'' (JStr [])) (\<lambda>date_field.
          bindE (strptime date_field) (\<lambda>class_date.
            if class_date \<ge> now then
              (if not_next_class next_class
               then Inr (Some (dict_set ''course_code'' (JStr code) d))
               else
                 bindE (py_getitem (JObj (case next_class of Some nc \<Rightarrow> nc | None \<Rightarrow> [])) ''date'')
                   (\<lambda>next_field.
                 bindE (strptime next_field) (\<lambda>next_date.
                   if class_date < next_date
                   then Inr (Some (dict_set ''course_code'' (JStr code) d))
                   else Inr next_class)))
            else Inr next_class))
      | _ \<Rightarrow> Inr next_class)"

fun scan_classes ::
  "date \<Rightarrow> (string \<times> json) list \<Rightarrow> (string \<times> json) list option \<Rightarrow> (string \<times> json) list option"
where
  "scan_classes now [] next_class = next_class"
| "scan_classes now ((code, details) # rest) next_class =
     scan_classes now rest
       (case consider_class now code details next_class of
          Inl e \<Rightarrow> next_class
        | Inr n \<Rightarrow> n)"

definition get_next_class :: "env \<Rightarrow> json \<Rightarrow> (string \<times> json) list option action" where
  "get_next_class env department =
     try_except
       (bindA (ref_get env (''classes/'' @ py_str department)) (\<lambda>fetched.
        bindA (liftE (py_items (or_empty_dict fetched))) (\<lambda>items.
          returnA (scan_classes (today env) items None))))
       (\<lambda>e. returnA None)"

section \<open>The webhook\<close>

datatype http_method = GET | POST

text \<open>
  What the handlers see of a request: the method, the query parameters, whether
  the content type announces JSON (\<open>request.is_json\<close>) and the body parsed as JSON
  (\<open>None\<close> when the body is not JSON text).
\<close>

record request =
  http_method :: http_method
  args :: "(string \<times> string) list"
  is_json :: bool
  json_body :: "json option"

text \<open>A response is a body and a status; \<open>ErrorPage\<close> is the page the framework
  produces itself when a view aborts, raises or returns no body.\<close>

datatype payload = Text string | Json json | ErrorPage

type_synonym response = "payload \<times> nat"

definition ok200 :: response where
  "ok200 = (Text ''OK'', 200)"

text \<open>\<open>request.get_json()\<close>: the body, or the framework's own error response.\<close>

definition get_json :: "request \<Rightarrow> response + json" where
  "get_json req =
     (if is_json req
      then (case json_body req of None \<Rightarrow> Inl (ErrorPage, 400) | Some data \<Rightarrow> Inr data)
      else Inl (ErrorPage, 415))"

text \<open>\<open>entry[0].changes[0].value.get("messages")\<close>, lines 112 to 115.\<close>

definition envelope_messages :: "json \<Rightarrow> error + json" where
  "envelope_messages data =
     bindE (py_getitem data ''entry'') (\<lambda>entries.
     bindE (py_index0 entries) (\<lambda>entry.
     bindE (py_getitem entry ''changes'') (\<lambda>change_list.
     bindE (py_index0 change_list) (\<lambda>changes.
     bindE (py_getitem changes ''value'') (\<lambda>val.
       py_get val ''messages'' JNull)))))"

text \<open>\<open>msg["text"]["body"].strip()\<close>: only a string has the method.\<close>

fun strip_method :: "json \<Rightarrow> error + string" where
  "strip_method (JStr s) = Inr (py_strip s)"
| "strip_method _ = Inl AttributeError"

text \<open>The admin command, lines 126 to 137. The unpacking needs five tokens or more.\<close>

definition admin_update :: "env \<Rightarrow> json \<Rightarrow> string \<Rightarrow> unit action" where
  "admin_update env from_number body =
     try_except
       (case py_split body of
          cmd # dept # code # date # time # lecturer \<Rightarrow>
            bindA
              (ref_set env (''classes/'' @ dept @ ''/'' @ code)
                 (JObj [(''date'', JStr date), (''time'', JStr time),
                        (''lecturer'', JStr (py_join '' '' lecturer))]))
              (\<lambda>u. send_whatsapp_message env from_number (''Schedule updated for '' @ code @ ''.''))
        | _ \<Rightarrow> raiseA ValueError)
       (\<lambda>e. send_whatsapp_message env from_number ''Error: Invalid adminupdate format.'')"

text \<open>The text of the reply of line 148; a missing key is a \<open>KeyError\<close>.\<close>

definition next_class_text :: "(string \<times> json) list \<Rightarrow> error + string" where
  "next_class_text nc =
     bindE (py_getitem (JObj nc) ''course_code'') (\<lambda>code.
     bindE (py_getitem (JObj nc) ''date'') (\<lambda>date.
     bindE (py_getitem (JObj nc) ''time'') (\<lambda>time.
     bindE (py_getitem (JObj nc) ''lecturer'') (\<lambda>lecturer.
       Inr (''Your next class is '' @ py_str code @ '' on '' @ py_str date @ '' at ''
            @ py_str time @ '' with '' @ py_str lecturer @ ''.'')))))"

text \<open>"next class", lines 141 to 150.\<close>

definition next_class_query :: "env \<Rightarrow> json \<Rightarrow> unit action" where
  "next_class_query env from_number =
     bindA (get_department env from_number) (\<lambda>dept.
     bindA (if dept = JStr ''SE''
            then ref_set env (''students/'' @ py_str from_number) (JObj [(''department'', JStr ''SE'')])
            else returnA ()) (\<lambda>u.
     bindA (get_next_class env (JStr ''SE'')) (\<lambda>next_class.
       if \<not> not_next_class next_class
       then bindA (liftE (next_class_text (case next_class of Some nc \<Rightarrow> nc | None \<Rightarrow> [])))
              (\<lambda>message. send_whatsapp_message env from_number message)
       else send_whatsapp_message env from_number ''No upcoming classes found.'')))"

text \<open>"my courses", lines 154 to 161.\<close>

definition my_courses_query :: "env \<Rightarrow> json \<Rightarrow> unit action" where
  "my_courses_query env from_number =
     bindA (get_department env from_number) (\<lambda>dept.
     bindA (ref_get env (''classes/'' @ py_str dept)) (\<lambda>fetched.
       if truthy (or_empty_dict fetched)
       then bindA (liftE (py_keys (or_empty_dict fetched))) (\<lambda>course_list.
              send_whatsapp_message env from_number
                (''Your courses: '' @ py_join '', '' course_list @ [CHR 0x0A]
                 @ ''Reply with a course code to get details.''))
       else send_whatsapp_message env from_number ''No courses found for your department.''))"

text \<open>The text of the reply of line 170.\<close>

definition course_text :: "string \<Rightarrow> json \<Rightarrow> error + string" where
  "course_text body class_details =
     bindE (py_get class_details ''date'' (JStr ''N/A'')) (\<lambda>date.
     bindE (py_get class_details ''time'' (JStr ''N/A'')) (\<lambda>time.
     bindE (py_get class_details ''lecturer'' (JStr ''N/A'')) (\<lambda>lecturer.
       Inr (''Course: '' @ body @ [CHR 0x0A] @ ''Date: '' @ py_str date @ [CHR 0x0A]
            @ ''Time: '' @ py_str time @ [CHR 0x0A] @ ''Lecturer: '' @ py_str lecturer))))"

text \<open>The assistant, lines 173 to 184.\<close>

definition ask_assistant :: "env \<Rightarrow> json \<Rightarrow> string \<Rightarrow> unit action" where
  "ask_assistant env from_number body =
     try_except
       (bindA (chat_completion env body) (\<lambda>content.
          send_whatsapp_message env from_number (py_strip content)))
       (\<lambda>e. send_whatsapp_message env from_number
               ''Sorry, I could not process your request right now.'')"

text \<open>The last branch, lines 165 to 185: a course code, or else the assistant.\<close>

definition course_or_assistant :: "env \<Rightarrow> json \<Rightarrow> string \<Rightarrow> unit action" where
  "course_or_assistant env from_number body =
     bindA (get_department env from_number) (\<lambda>dept.
     bindA (ref_get env (''classes/'' @ py_str dept)) (\<lambda>fetched.
     bindA (liftE (py_contains (or_empty_dict fetched) body)) (\<lambda>found.
       if found
       then bindA (liftE (bindE (py_getitem (or_empty_dict fetched) body) (course_text body)))
              (\<lambda>message. send_whatsapp_message env from_number message)
       else ask_assistant env from_number body)))"

text \<open>
  The chain of branches, lines 125 to 185. Each branch ends in \<open>return "OK", 200\<close>,
  which is \<open>Some\<close>; \<open>None\<close> would be a branch that runs on to the next statement.
\<close>

definition route :: "env \<Rightarrow> json \<Rightarrow> string \<Rightarrow> bool \<Rightarrow> response option action" where
  "route env from_number body is_admin =
     (if startswith (py_lower body) ''adminupdate'' \<and> is_admin then
        bindA (admin_update env from_number body) (\<lambda>u. returnA (Some ok200))
      else if py_lower body \<in> set [''next class'', ''when is my next class?''] then
        bindA (next_class_query env from_number) (\<lambda>u. returnA (Some ok200))
      else if py_lower body = ''my courses'' then
        bindA (my_courses_query env from_number) (\<lambda>u. returnA (Some ok200))
      else
        bindA (course_or_assistant env from_number body) (\<lambda>u. returnA (Some ok200)))"

definition intro_message :: string where
  "intro_message =
     ''Hello! My name is Zibot, your helpful assistant for Software Engineering students at SDU. Ask me about your schedule, classes, or any SE topic!''"

text \<open>The introduction, lines 187 to 193, the statements after the chain.\<close>

definition introduction :: "env \<Rightarrow> json \<Rightarrow> response option action" where
  "introduction env from_number =
     bindA (ref_get env (''users/'' @ py_str from_number @ ''/introduced'')) (\<lambda>introduced.
       if \<not> truthy introduced then
         bindA (send_whatsapp_message env from_number intro_message) (\<lambda>u.
         bindA (ref_set env (''users/'' @ py_str from_number @ ''/introduced'') (JBool True)) (\<lambda>u.
           returnA (Some ok200)))
       else returnA None)"

text \<open>The body of the outer \<open>try\<close>, lines 112 to 193.\<close>

definition process_payload :: "env \<Rightarrow> json \<Rightarrow> response option action" where
  "process_payload env data =
     bindA (liftE (envelope_messages data)) (\<lambda>messages.
       if truthy messages then
         bindA (liftE (py_index0 messages)) (\<lambda>msg.
         bindA (liftE (py_getitem msg ''from'')) (\<lambda>from_number.
         bindA (liftE (bindE (py_getitem msg ''text'') (\<lambda>txt.
                       bindE (py_getitem txt ''body'') strip_method))) (\<lambda>body.
         bindA (ref_get env (''admins/'' @ py_str from_number)) (\<lambda>admin_flag.
         bindA (route env from_number body (admin_flag = JBool True)) (\<lambda>returned.
           case returned of
             Some resp \<Rightarrow> returnA (Some resp)
           | None \<Rightarrow> introduction env from_number)))))
       else returnA None)"

text \<open>The verification handshake, lines 94 to 102.\<close>

definition handshake :: "request \<Rightarrow> response" where
  "handshake req =
     (if map_of (args req) ''hub.mode'' = Some ''subscribe''
         \<and> map_of (args req) ''hub.verify_token'' = Some ''mysecrettoken''
      then (case map_of (args req) ''hub.challenge'' of
              None \<Rightarrow> (ErrorPage, 500)
            | Some challenge \<Rightarrow> (Text challenge, 200))
      else (Text ''Verification failed'', 403))"

text \<open>
  \<open>whatsapp_webhook\<close>: the response, and the store and the calls made when the
  request is done. An exception of the outer \<open>try\<close> is printed and the function
  runs on to its last line.
\<close>

definition whatsapp_webhook :: "env \<Rightarrow> request \<Rightarrow> json \<Rightarrow> response \<times> state" where
  "whatsapp_webhook env req database =
     (let s0 = \<lparr>db = database, trace = []\<rparr> in
      if http_method req = GET then (handshake req, s0)
      else if \<not> is_json req then
        ((Json (JObj [(''error'', JStr ''Content-Type must be application/json'')]), 415), s0)
      else
        (case get_json req of
           Inl aborted \<Rightarrow> (aborted, s0)
         | Inr data \<Rightarrow>
             (case try_except (process_payload env data) (\<lambda>e. returnA None) s0 of
                (Inr (Some resp), s) \<Rightarrow> (resp, s)
              | (r, s) \<Rightarrow> (ok200, s))))"

text \<open>\<open>register_student\<close>; an exception that leaves the view is the framework's 500.\<close>

definition register_student :: "env \<Rightarrow> request \<Rightarrow> json \<Rightarrow> response \<times> state" where
  "register_student env req database =
     (let s0 = \<lparr>db = database, trace = []\<rparr> in
      case get_json req of
        Inl aborted \<Rightarrow> (aborted, s0)
      | Inr data \<Rightarrow>
          (case bindA (liftE (py_get data ''whatsapp'' JNull)) (\<lambda>whatsapp.
                bindA (liftE (py_get data ''department'' JNull)) (\<lambda>department.
                  if \<not> truthy whatsapp \<or> \<not> truthy department
                  then returnA (Json (JObj [(''error'', JStr ''Missing whatsapp or department'')]), 400)
                  else bindA (ref_set env (''students/'' @ py_str whatsapp)
                                (JObj [(''department'', department)])) (\<lambda>u.
                         returnA (Json (JObj [(''message'', JStr ''Student registered.'')]), 200))))
                 s0 of
             (Inl e, s) \<Rightarrow> ((ErrorPage, 500), s)
           | (Inr resp, s) \<Rightarrow> (resp, s)))"

section \<open>Notions the statements use\<close>

text \<open>
  The date of a class record: the record is a dict, its \<open>date\<close> field is a string and
  the string is a date of the form \<open>%Y-%m-%d\<close>. A record without such a date has none.
\<close>

definition record_date :: "json \<Rightarrow> date option" where
  "record_date details =
     (case details of
        JObj d \<Rightarrow> (case map_of d ''date'' of Some (JStr txt) \<Rightarrow> strptime_ymd txt | _ \<Rightarrow> None)
      | _ \<Rightarrow> None)"

text \<open>
  A date of the calendar, years 1 to 9999, and its text in the form \<open>YYYY-MM-DD\<close>
  with every field padded by zeros.
\<close>

definition two_digits :: "nat \<Rightarrow> string" where
  "two_digits n = [digit_char (n div 10), digit_char n]"

definition iso_date :: "date \<Rightarrow> string" where
  "iso_date dt =
     (case dt of (y, m, d) \<Rightarrow>
        [digit_char (y div 1000), digit_char (y div 100), digit_char (y div 10), digit_char y]
        @ ''-'' @ two_digits m @ ''-'' @ two_digits d)"

definition valid_date :: "date \<Rightarrow> bool" where
  "valid_date dt =
     (case dt of (y, m, d) \<Rightarrow>
        1 \<le> y \<and> y \<le> 9999 \<and> 1 \<le> m \<and> m \<le> 12 \<and> 1 \<le> d \<and> d \<le> days_in_month y m)"

text \<open>A text is a well-formed \<open>YYYY-MM-DD\<close> date when it is that text of a date of the
  calendar.\<close>

definition well_formed_ymd :: "string \<Rightarrow> bool" where
  "well_formed_ymd s \<longleftrightarrow> (\<exists>dt. valid_date dt \<and> s = iso_date dt)"

text \<open>A record is upcoming when it has a date and the date is today or later.\<close>

definition upcoming :: "date \<Rightarrow> json \<Rightarrow> bool" where
  "upcoming now details = (case record_date details of None \<Rightarrow> False | Some dt \<Rightarrow> now \<le> dt)"

text \<open>
  The sender and the trimmed text of the message a payload carries: what lines 112
  to 120 extract when the envelope has a non-empty \<open>messages\<close> and none of the
  subscripts raises.
\<close>

definition inbound_message :: "json \<Rightarrow> (json \<times> string) option" where
  "inbound_message data =
     (case envelope_messages data of
        Inl e \<Rightarrow> None
      | Inr messages \<Rightarrow>
          if truthy messages then
            (case bindE (py_index0 messages) (\<lambda>msg.
                  bindE (py_getitem msg ''from'') (\<lambda>from_number.
                  bindE (bindE (py_getitem msg ''text'') (\<lambda>txt.
                         bindE (py_getitem txt ''body'') strip_method)) (\<lambda>body.
                    Inr (from_number, body)))) of
               Inl e \<Rightarrow> None
             | Inr found \<Rightarrow> Some found)
          else None)"

text \<open>
  Properties of what an action does to the state: every call it adds to the trace
  satisfies \<open>P\<close>; it leaves the store as it was.
\<close>

definition emits :: "(event \<Rightarrow> bool) \<Rightarrow> 'a action \<Rightarrow> bool" where
  "emits P m \<longleftrightarrow> (\<forall>s. \<exists>new. trace (snd (m s)) = trace s @ new \<and> list_all (\<lambda>e. P (fst e)) new)"

definition keeps_db :: "'a action \<Rightarrow> bool" where
  "keeps_db m \<longleftrightarrow> (\<forall>s. db (snd (m s)) = db s)"

fun is_write :: "event \<Rightarrow> bool" where
  "is_write (DbSet path v) = True"
| "is_write _ = False"

text \<open>The calls of the introduction: it reads and writes \<open>users/{id}/introduced\<close>.\<close>

fun touches_introduced :: "event \<Rightarrow> bool" where
  "touches_introduced (DbGet path) = startswith path ''users/''"
| "touches_introduced (DbSet path v) = startswith path ''users/''"
| "touches_introduced _ = False"

text \<open>A read of a class mapping other than the one of the default department.\<close>

fun scans_other_classes :: "event \<Rightarrow> bool" where
  "scans_other_classes (DbGet path) = (startswith path ''classes/'' \<and> path \<noteq> ''classes/SE'')"
| "scans_other_classes _ = False"

section \<open>Sample data\<close>

text \<open>An environment in which no call raises, a small store, and the envelope the
  messaging platform posts for one text message.\<close>

definition quiet_env :: env where
  "quiet_env = \<lparr>today = (2025, 1, 15), faults = (\<lambda>n. False), assistant = (\<lambda>body. ''Happy to help. '')\<rparr>"

definition se_classes :: "(string \<times> json) list" where
  "se_classes =
     [(''CS101'', JObj [(''date'', JStr ''2025-03-01''), (''time'', JStr ''10:00''),
                        (''lecturer'', JStr ''Dr Smith'')]),
      (''cs101'', JObj [(''date'', JStr ''2025-02-01''), (''time'', JStr ''09:00''),
                        (''lecturer'', JStr ''Dr Jones'')]),
      (''CS900'', JObj [(''date'', JStr ''2024-12-01''), (''time'', JStr ''08:00''),
                        (''lecturer'', JStr ''Dr Past'')]),
      (''CS102'', JObj [(''date'', JStr ''soon''), (''time'', JStr ''12:00'')]),
      (''CS103'', JStr ''cancelled''),
      (''CS104'', JObj [(''date'', JStr ''2025-02-01''), (''time'', JStr ''14:00''),
                        (''lecturer'', JStr ''Dr Late'')])]"

definition sample_db :: json where
  "sample_db =
     JObj [(''admins'', JObj [(''233200000001'', JBool True)]),
           (''students'',
              JObj [(''233200000002'', JObj [(''department'', JStr ''EE'')]),
                    (''233200000003'', JObj [(''department'', JStr ''SE''), (''name'', JStr ''Ada'')])]),
           (''classes'',
              JObj [(''SE'', JObj se_classes),
                    (''EE'',
                       JObj [(''EE201'', JObj [(''date'', JStr ''2025-01-20''), (''time'', JStr ''13:00''),
                                                 (''lecturer'', JStr ''Dr Volta'')])])])]"

text \<open>A department whose first class has its date written without padding.\<close>

definition loose_dates_db :: json where
  "loose_dates_db =
     JObj [(''classes'',
              JObj [(''ME'',
                       JObj [(''ME110'', JObj [(''date'', JStr ''2025-3-1''), (''time'', JStr ''10:00''),
                                                 (''lecturer'', JStr ''Dr Watt'')]),
                             (''ME120'', JObj [(''date'', JStr ''2025-03-05''), (''time'', JStr ''11:00''),
                                                 (''lecturer'', JStr ''Dr Otto'')])])])]"

definition start :: "json \<Rightarrow> state" where
  "start database = \<lparr>db = database, trace = []\<rparr>"

definition delivery :: "json \<Rightarrow> string \<Rightarrow> json" where
  "delivery from_number body =
     JObj [(''object'', JStr ''whatsapp_business_account''),
           (''entry'',
              JArr [JObj [(''id'', JStr ''0''),
                          (''changes'',
                             JArr [JObj [(''field'', JStr ''messages''),
                                         (''value'',
                                            JObj [(''messaging_product'', JStr ''whatsapp''),
                                                  (''messages'',
                                                     JArr [JObj [(''from'', from_number),
                                                                 (''type'', JStr ''text''),
                                                                 (''text'', JObj [(''body'', JStr body)])]])])]])]])]"

definition post_json :: "json \<Rightarrow> request" where
  "post_json data = \<lparr>http_method = POST, args = [], is_json = True, json_body = Some data\<rparr>"

section \<open>Calls and their effects\<close>

lemma bindA_returnA [simp]: "bindA (returnA x) f s = f x s"
  by (simp add: bindA_def returnA_def)

lemma bindA_raiseA [simp]: "bindA (raiseA e) f s = (Inl e, s)"
  by (simp add: bindA_def raiseA_def)

lemma bindA_liftE_Inr [simp]: "bindA (liftE (Inr x)) f s = f x s"
  by (simp add: bindA_def liftE_def)

lemma bindA_liftE_Inl [simp]: "bindA (liftE (Inl e)) f s = (Inl e, s)"
  by (simp add: bindA_def liftE_def)

lemma illegal_path_append [simp]:
  "illegal_path (p @ q) \<longleftrightarrow> illegal_path p \<or> illegal_path q"
  by (auto simp: illegal_path_def)

lemma illegal_path_Cons [simp]:
  "illegal_path (c # p) \<longleftrightarrow> c \<in> set ''[].?#$'' \<or> illegal_path p"
  by (auto simp: illegal_path_def)

lemma illegal_path_Nil [simp]: "\<not> illegal_path []"
  by (simp add: illegal_path_def)

lemma legal_prefixes [simp]:
  "\<not> illegal_path ''admins/''" "\<not> illegal_path ''students/''" "\<not> illegal_path ''classes/''"
  "\<not> illegal_path ''classes/SE''"
  by (simp_all add: illegal_path_def)

lemma ref_get_eq:
  "ref_get env path s =
     (if illegal_path path then (Inl ValueError, s)
      else if faults env (length (trace s))
      then (Inl StoreError, s\<lparr>trace := trace s @ [(DbGet path, False)]\<rparr>)
      else (Inr (db_get (db s) (segments path)), s\<lparr>trace := trace s @ [(DbGet path, True)]\<rparr>))"
  by (simp add: ref_get_def external_def Let_def)

lemma ref_set_eq:
  "ref_set env path v s =
     (if illegal_path path then (Inl ValueError, s)
      else if faults env (length (trace s))
      then (Inl StoreError, s\<lparr>trace := trace s @ [(DbSet path v, False)]\<rparr>)
      else (Inr (), s\<lparr>trace := trace s @ [(DbSet path v, True)],
                       db := db_set (db s) (segments path) v\<rparr>))"
  by (simp add: ref_set_def external_def Let_def)

lemma send_eq:
  "send_whatsapp_message env to message s =
     (if faults env (length (trace s))
      then (Inl SendError, s\<lparr>trace := trace s @ [(Send to message, False)]\<rparr>)
      else (Inr (), s\<lparr>trace := trace s @ [(Send to message, True)]\<rparr>))"
  by (simp add: send_whatsapp_message_def external_def Let_def)

lemma chat_eq:
  "chat_completion env body s =
     (if faults env (length (trace s))
      then (Inl ApiError, s\<lparr>trace := trace s @ [(Chat body, False)]\<rparr>)
      else (Inr (assistant env body), s\<lparr>trace := trace s @ [(Chat body, True)]\<rparr>))"
  by (simp add: chat_completion_def external_def Let_def)

lemma get_department_eq:
  "get_department env whatsapp s =
     (Inr (if illegal_path (py_str whatsapp) \<or> faults env (length (trace s)) then JStr ''SE''
           else (case db_get (db s) (segments (''students/'' @ py_str whatsapp)) of
                   JObj kvs \<Rightarrow> (case map_of kvs ''department'' of None \<Rightarrow> JStr ''SE'' | Some d \<Rightarrow> d)
                 | _ \<Rightarrow> JStr ''SE'')),
      if illegal_path (py_str whatsapp) then s
      else s\<lparr>trace := trace s @ [(DbGet (''students/'' @ py_str whatsapp),
                                     \<not> faults env (length (trace s)))]\<rparr>)"
proof (cases "illegal_path (py_str whatsapp) \<or> faults env (length (trace s))")
  case True
  then show ?thesis
    by (auto simp: get_department_def bindA_def try_except_def ref_get_eq returnA_def)
next
  case no: False
  then have False: "\<not> illegal_path (py_str whatsapp)" "\<not> faults env (length (trace s))"
    by simp_all
  show ?thesis
  proof (cases "db_get (db s) (segments (''students/'' @ py_str whatsapp))")
    case (JObj kvs)
    show ?thesis
    proof (cases "map_of kvs ''department''")
      case None
      then have "''department'' \<notin> fst ` set kvs" by (simp add: map_of_eq_None_iff)
      with False JObj None show ?thesis
        by (simp add: get_department_def bindA_def try_except_def ref_get_eq returnA_def)
    next
      case (Some d)
      then have "''department'' \<in> fst ` set kvs" and "kvs \<noteq> []"
        by (force dest!: map_of_SomeD)+
      with False JObj Some show ?thesis
        by (simp add: get_department_def bindA_def try_except_def ref_get_eq returnA_def liftE_def)
    qed
  qed (use False in \<open>simp_all add: get_department_def bindA_def try_except_def ref_get_eq returnA_def\<close>)
qed

section \<open>The department resolver\<close>

text \<open>
  C8: the resolver returns the department field of the student record when the
  lookup completes and the record is a mapping that has the field; when the lookup
  raises, or the record is absent, not a mapping or without the field, it returns
  the default \<open>SE\<close>; in every case it returns a value and never an exception.
\<close>

theorem get_department_never_raises:
  "(\<not> illegal_path (''students/'' @ py_str whatsapp) \<and> \<not> faults env (length (trace s))
      \<and> db_get (db s) (segments (''students/'' @ py_str whatsapp)) = JObj kvs
      \<and> map_of kvs ''department'' = Some d
     \<longrightarrow> fst (get_department env whatsapp s) = Inr d)
   \<and> (illegal_path (''students/'' @ py_str whatsapp) \<or> faults env (length (trace s))
      \<or> (\<forall>kvs. db_get (db s) (segments (''students/'' @ py_str whatsapp)) = JObj kvs
            \<longrightarrow> map_of kvs ''department'' = None)
     \<longrightarrow> fst (get_department env whatsapp s) = Inr (JStr ''SE''))
   \<and> (\<exists>d. fst (get_department env whatsapp s) = Inr d)"
  by (auto simp: get_department_eq split: json.splits option.splits)

theorem get_department_never_raises_witness:
  "\<not> illegal_path (''students/'' @ py_str (JStr ''233200000002''))
   \<and> \<not> faults quiet_env (length (trace (start sample_db)))
   \<and> db_get (db (start sample_db)) (segments (''students/'' @ py_str (JStr ''233200000002'')))
       = JObj [(''department'', JStr ''EE'')]
   \<and> map_of [(''department'', JStr ''EE'')] ''department'' = Some (JStr ''EE'')
   \<and> fst (get_department quiet_env (JStr ''233200000002'') (start sample_db)) = Inr (JStr ''EE'')
   \<and> illegal_path (''students/'' @ py_str (JStr ''a.b''))
   \<and> fst (get_department quiet_env (JStr ''a.b'') (start sample_db)) = Inr (JStr ''SE'')"
proof -
  have v: "\<not> illegal_path (''students/'' @ py_str (JStr ''233200000002''))"
    by code_simp
  have a: "\<not> faults quiet_env (length (trace (start sample_db)))"
    by (simp add: quiet_env_def)
  have b: "db_get (db (start sample_db)) (segments (''students/'' @ py_str (JStr ''233200000002'')))
       = JObj [(''department'', JStr ''EE'')]"
    by code_simp
  have c: "map_of [(''department'', JStr ''EE'')] ''department'' = Some (JStr ''EE'')"
    by simp
  from get_department_never_raises[of "JStr ''233200000002''" quiet_env "start sample_db"
      "[(''department'', JStr ''EE'')]" "JStr ''EE''"] v a b c
  have one: "fst (get_department quiet_env (JStr ''233200000002'') (start sample_db)) = Inr (JStr ''EE'')"
    by blast
  have i: "illegal_path (''students/'' @ py_str (JStr ''a.b''))"
    by code_simp
  from get_department_never_raises[of "JStr ''a.b''" quiet_env "start sample_db"] i
  have two: "fst (get_department quiet_env (JStr ''a.b'') (start sample_db)) = Inr (JStr ''SE'')"
    by blast
  from v a b c one i two show ?thesis by blast
qed

section \<open>The dates the parser accepts\<close>

text \<open>Every date of the calendar, written \<open>YYYY-MM-DD\<close>, is read back as that date.\<close>

lemma below_ten: "k < 10 \<Longrightarrow> k = 0 \<or> k = 1 \<or> k = 2 \<or> k = 3 \<or> k = 4 \<or> k = 5 \<or> k = 6 \<or> k = 7 \<or> k = 8 \<or> k = (9::nat)"
  by arith

lemma digit_table:
  assumes "k < 10"
  shows "is_digit (''0123456789'' ! k) \<and> digit_val (''0123456789'' ! k) = k
         \<and> ''0123456789'' ! k \<noteq> CHR ''-''"
  using below_ten[OF assms]
  by (elim disjE) (simp_all add: is_digit_def digit_val_def)

lemma digit_char_props:
  "is_digit (digit_char n)" "digit_val (digit_char n) = n mod 10" "digit_char n \<noteq> CHR ''-''"
  using digit_table[of "n mod 10"] by (simp_all add: digit_char_def)

lemma month_field_two_digits:
  assumes "1 \<le> m" and "m \<le> 12"
  shows "month_field (two_digits m) = Some m"
proof -
  from assms have "m = 1 \<or> m = 2 \<or> m = 3 \<or> m = 4 \<or> m = 5 \<or> m = 6 \<or> m = 7 \<or> m = 8 \<or> m = 9
      \<or> m = 10 \<or> m = 11 \<or> m = 12"
    by arith
  then show ?thesis
    by (elim disjE) (simp_all add: month_field_def two_digits_def digit_char_def digit_val_def)
qed

lemma day_field_two_digits:
  assumes "1 \<le> d" and "d \<le> 31"
  shows "day_field (two_digits d) = Some d"
proof -
  from assms have "d \<in> set [1, 2, 3, 4, 5, 6, 7, 8, 9, 10, 11, 12, 13, 14, 15, 16, 17, 18, 19, 20,
      21, 22, 23, 24, 25, 26, 27, 28, 29, 30, 31]"
    by (simp only: list.set insert_iff empty_iff) arith
  then show ?thesis
    by (simp only: list.set insert_iff empty_iff, elim disjE FalseE)
       (simp_all add: day_field_def two_digits_def digit_char_def digit_val_def is_digit_def)
qed

lemma year_digits:
  assumes "(y::nat) \<le> 9999"
  shows "1000 * (y div 1000 mod 10) + 100 * (y div 100 mod 10) + 10 * (y div 10 mod 10) + y mod 10 = y"
proof -
  have a: "y div 1000 mod 10 = y div 1000" using assms by simp
  have b: "y div 1000 = y div 100 div 10" "y div 100 = y div 10 div 10"
    by (simp_all add: div_mult2_eq[symmetric])
  have c: "y div 100 = 10 * (y div 100 div 10) + y div 100 mod 10" by simp
  have d: "y div 10 = 10 * (y div 10 div 10) + y div 10 mod 10" by simp
  have e: "y = 10 * (y div 10) + y mod 10" by simp
  from a b c d e show ?thesis by linarith
qed

lemma days_in_month_le: "days_in_month y m \<le> 31"
  by (simp add: days_in_month_def)

lemma strptime_ymd_iso_date:
  assumes "valid_date dt"
  shows "strptime_ymd (iso_date dt) = Some dt"
proof -
  obtain y m d where dt: "dt = (y, m, d)" by (cases dt)
  from assms dt have v: "1 \<le> y" "y \<le> 9999" "1 \<le> m" "m \<le> 12" "1 \<le> d" "d \<le> days_in_month y m"
    by (simp_all add: valid_date_def)
  from v(6) days_in_month_le[of y m] have d31: "d \<le> 31" by simp
  have year: "1000 * (y div 1000 mod 10) + 100 * (y div 100 mod 10) + 10 * (y div 10 mod 10) + y mod 10 = y"
    using v(2) by (rule year_digits)
  have tw: "takeWhile (\<lambda>c. c \<noteq> CHR ''-'') (two_digits m @ ''-'' @ two_digits d) = two_digits m"
    "dropWhile (\<lambda>c. c \<noteq> CHR ''-'') (two_digits m @ ''-'' @ two_digits d) = ''-'' @ two_digits d"
    by (simp_all add: two_digits_def digit_char_props)
  show ?thesis
    using v year
    by (simp add: dt iso_date_def strptime_ymd_def digit_char_props tw[simplified]
          month_field_two_digits day_field_two_digits[OF v(5) d31])
qed

lemma record_date_iso_date:
  assumes "valid_date dt" and "map_of d ''date'' = Some (JStr (iso_date dt))"
  shows "record_date (JObj d) = Some dt"
  using assms by (simp add: record_date_def strptime_ymd_iso_date)

section \<open>The next-class finder\<close>

lemma map_of_dict_set: "map_of (dict_set k v kvs) k' = (if k' = k then Some v else map_of kvs k')"
  by (induction kvs) auto

lemma dict_set_not_Nil [simp]: "dict_set k v kvs \<noteq> []"
  by (cases kvs) (auto split: if_splits)

lemma strptime_Inr_iff: "strptime v = Inr dt \<longleftrightarrow> (\<exists>txt. v = JStr txt \<and> strptime_ymd txt = Some dt)"
  by (cases v) (auto split: option.splits)

lemma strptime_ymd_Nil [simp]: "strptime_ymd [] = None"
  by (simp add: strptime_ymd_def)

lemma strptime_record_date:
  "(case strptime (case map_of d ''date'' of None \<Rightarrow> JStr [] | Some v \<Rightarrow> v) of Inl e \<Rightarrow> None | Inr dt \<Rightarrow> Some dt)
     = record_date (JObj d)"
proof (cases "map_of d ''date''")
  case None
  then show ?thesis by (simp add: record_date_def)
next
  case (Some v)
  then show ?thesis by (cases v) (simp_all add: record_date_def split: option.splits)
qed

lemma record_date_dict_set [simp]:
  "record_date (JObj (dict_set ''course_code'' v d)) = record_date (JObj d)"
  by (simp add: record_date_def map_of_dict_set)

lemma consider_class_not_dict:
  "\<not> is_dict details \<Longrightarrow> consider_class now code details acc = Inr acc"
  by (cases details) (simp_all add: consider_class_def)

lemma consider_class_no_date:
  assumes "record_date (JObj d) = None"
  shows "(case consider_class now code (JObj d) acc of Inl e \<Rightarrow> acc | Inr n \<Rightarrow> n) = acc"
proof -
  from assms strptime_record_date[of d]
  obtain e where "strptime (case map_of d ''date'' of None \<Rightarrow> JStr [] | Some v \<Rightarrow> v) = Inl e"
    by (cases "strptime (case map_of d ''date'' of None \<Rightarrow> JStr [] | Some v \<Rightarrow> v)") auto
  then show ?thesis by (simp add: consider_class_def bindE_def)
qed

lemma consider_class_first:
  assumes "record_date (JObj d) = Some dt"
  shows "consider_class now code (JObj d) None =
           Inr (if now \<le> dt then Some (dict_set ''course_code'' (JStr code) d) else None)"
proof -
  from assms strptime_record_date[of d]
  have "strptime (case map_of d ''date'' of None \<Rightarrow> JStr [] | Some v \<Rightarrow> v) = Inr dt"
    by (cases "strptime (case map_of d ''date'' of None \<Rightarrow> JStr [] | Some v \<Rightarrow> v)") auto
  then show ?thesis by (simp add: consider_class_def bindE_def not_next_class_def)
qed

lemma consider_class_later:
  assumes "record_date (JObj d) = Some dt" and "record_date (JObj d0) = Some bdt"
  shows "consider_class now code (JObj d) (Some (dict_set ''course_code'' (JStr c0) d0)) =
           Inr (if now \<le> dt \<and> dt < bdt then Some (dict_set ''course_code'' (JStr code) d)
                else Some (dict_set ''course_code'' (JStr c0) d0))"
proof -
  from assms(1) strptime_record_date[of d]
  have a: "strptime (case map_of d ''date'' of None \<Rightarrow> JStr [] | Some v \<Rightarrow> v) = Inr dt"
    by (cases "strptime (case map_of d ''date'' of None \<Rightarrow> JStr [] | Some v \<Rightarrow> v)") auto
  from assms(2) obtain ds where b: "map_of d0 ''date'' = Some (JStr ds)" "strptime_ymd ds = Some bdt"
    by (auto simp: record_date_def split: option.splits json.splits)
  from a b show ?thesis
    by (simp add: consider_class_def bindE_def not_next_class_def map_of_dict_set)
qed

lemma round_skip:
  assumes "\<not> upcoming now details"
  shows "(case consider_class now code details acc of Inl e \<Rightarrow> acc | Inr n \<Rightarrow> n) = acc"
proof (cases details)
  case (JObj d)
  show ?thesis
  proof (cases "record_date (JObj d)")
    case None
    then show ?thesis using JObj by (simp add: consider_class_no_date)
  next
    case (Some dt)
    with assms JObj have nd: "\<not> now \<le> dt" by (simp add: upcoming_def)
    from Some strptime_record_date[of d]
    have a: "strptime (case map_of d ''date'' of None \<Rightarrow> JStr [] | Some v \<Rightarrow> v) = Inr dt"
      by (cases "strptime (case map_of d ''date'' of None \<Rightarrow> JStr [] | Some v \<Rightarrow> v)") auto
    from a nd JObj show ?thesis by (simp add: consider_class_def bindE_def)
  qed
qed (simp_all add: consider_class_def)

lemma scan_classes_append:
  "scan_classes now (xs @ ys) acc = scan_classes now ys (scan_classes now xs acc)"
  by (induction xs arbitrary: acc) auto

lemma scan_classes_skip:
  assumes "\<not> upcoming now details"
  shows "scan_classes now (pre @ (code, details) # post) acc = scan_classes now (pre @ post) acc"
  using assms by (simp add: scan_classes_append round_skip)


lemma upcoming_iff: "upcoming now details \<longleftrightarrow> (\<exists>dt. record_date details = Some dt \<and> now \<le> dt)"
  by (simp add: upcoming_def split: option.splits)

lemma record_date_is_dict: "record_date details = Some dt \<Longrightarrow> \<exists>d. details = JObj d"
  by (cases details) (simp_all add: record_date_def)

lemma scan_classes_select:
  fixes now :: date
  assumes "acc = None \<or> (\<exists>c0 d0. acc = Some (dict_set ''course_code'' (JStr c0) d0)
                              \<and> record_date (JObj d0) = Some bdt)"
  shows "(scan_classes now items acc = acc
          \<and> (\<forall>it\<in>set items. \<forall>dt. record_date (snd it) = Some dt \<and> now \<le> dt \<longrightarrow> acc \<noteq> None \<and> bdt \<le> dt))
       \<or> (\<exists>pre code d post dt.
            items = pre @ (code, JObj d) # post
            \<and> scan_classes now items acc = Some (dict_set ''course_code'' (JStr code) d)
            \<and> record_date (JObj d) = Some dt \<and> now \<le> dt \<and> (acc \<noteq> None \<longrightarrow> dt < bdt)
            \<and> (\<forall>it\<in>set pre. \<forall>dt'. record_date (snd it) = Some dt' \<and> now \<le> dt' \<longrightarrow> dt < dt')
            \<and> (\<forall>it\<in>set post. \<forall>dt'. record_date (snd it) = Some dt' \<and> now \<le> dt' \<longrightarrow> dt \<le> dt'))"
  using assms
proof (induction items arbitrary: acc bdt)
  case Nil
  then show ?case by simp
next
  case (Cons item items)
  obtain code details where item: "item = (code, details)" by (cases item)
  let ?step = "case consider_class now code details acc of Inl e \<Rightarrow> acc | Inr n \<Rightarrow> n"
  have scan: "scan_classes now (item # items) acc = scan_classes now items ?step"
    by (simp add: item)
  consider
      (skip) "\<not> upcoming now details"
    | (take) d dt where "details = JObj d" "record_date (JObj d) = Some dt" "now \<le> dt"
        "acc = None \<or> dt < bdt"
    | (keep) d dt where "details = JObj d" "record_date (JObj d) = Some dt" "now \<le> dt"
        "acc \<noteq> None" "\<not> dt < bdt"
    by (metis upcoming_iff record_date_is_dict)
  then show ?case
  proof cases
    case skip
    then have step: "?step = acc" by (rule round_skip)
    from skip have none: "\<And>dt. \<not> (record_date details = Some dt \<and> now \<le> dt)"
      unfolding upcoming_iff by blast
    from Cons.IH[OF Cons.prems] show ?thesis
    proof (elim disjE exE conjE)
      assume "scan_classes now items acc = acc"
        and "\<forall>it\<in>set items. \<forall>dt. record_date (snd it) = Some dt \<and> now \<le> dt \<longrightarrow> acc \<noteq> None \<and> bdt \<le> dt"
      with none show ?thesis
        unfolding scan step by (auto simp del: split_paired_All split_paired_Ex simp: item)
    next
      fix pre c d post dt
      assume a: "items = pre @ (c, JObj d) # post"
        "scan_classes now items acc = Some (dict_set ''course_code'' (JStr c) d)"
        "record_date (JObj d) = Some dt" "now \<le> dt" "acc \<noteq> None \<longrightarrow> dt < bdt"
        "\<forall>it\<in>set pre. \<forall>dt'. record_date (snd it) = Some dt' \<and> now \<le> dt' \<longrightarrow> dt < dt'"
        "\<forall>it\<in>set post. \<forall>dt'. record_date (snd it) = Some dt' \<and> now \<le> dt' \<longrightarrow> dt \<le> dt'"
      have "item # items = (item # pre) @ (c, JObj d) # post" using a(1) by simp
      moreover have "\<forall>it\<in>set (item # pre). \<forall>dt'. record_date (snd it) = Some dt' \<and> now \<le> dt' \<longrightarrow> dt < dt'"
        using a(6) none by (auto simp del: split_paired_All split_paired_Ex simp: item)
      ultimately show ?thesis using a(2-5,7) unfolding scan step by blast
    qed
  next
    case take
    have step: "?step = Some (dict_set ''course_code'' (JStr code) d)"
    proof (cases acc)
      case None
      then show ?thesis using take by (simp add: consider_class_first)
    next
      case (Some nc)
      with Cons.prems obtain c0 d0 where
        "acc = Some (dict_set ''course_code'' (JStr c0) d0)" "record_date (JObj d0) = Some bdt"
        by auto
      moreover from Some take(4) have "dt < bdt" by simp
      ultimately show ?thesis using take(1-3) by (simp add: consider_class_later)
    qed
    have pre': "Some (dict_set ''course_code'' (JStr code) d) = None
         \<or> (\<exists>c0 d0. Some (dict_set ''course_code'' (JStr code) d) = Some (dict_set ''course_code'' (JStr c0) d0)
               \<and> record_date (JObj d0) = Some dt)"
      using take(2) by blast
    from Cons.IH[OF pre'] show ?thesis
    proof (elim disjE exE conjE)
      assume a: "scan_classes now items (Some (dict_set ''course_code'' (JStr code) d))
                   = Some (dict_set ''course_code'' (JStr code) d)"
        "\<forall>it\<in>set items. \<forall>dt'. record_date (snd it) = Some dt' \<and> now \<le> dt'
            \<longrightarrow> Some (dict_set ''course_code'' (JStr code) d) \<noteq> None \<and> dt \<le> dt'"
      have "item # items = [] @ (code, JObj d) # items" by (simp add: item take(1))
      moreover have "\<forall>it\<in>set []. \<forall>dt'. record_date (snd it) = Some dt' \<and> now \<le> dt' \<longrightarrow> dt < dt'"
        by simp
      moreover have "\<forall>it\<in>set items. \<forall>dt'. record_date (snd it) = Some dt' \<and> now \<le> dt' \<longrightarrow> dt \<le> dt'"
        using a(2) by blast
      moreover have "acc \<noteq> None \<longrightarrow> dt < bdt" using take(4) by blast
      ultimately show ?thesis using a(1) take(2,3) unfolding scan step by blast
    next
      fix pre c d' post dt'
      assume a: "items = pre @ (c, JObj d') # post"
        "scan_classes now items (Some (dict_set ''course_code'' (JStr code) d))
           = Some (dict_set ''course_code'' (JStr c) d')"
        "record_date (JObj d') = Some dt'" "now \<le> dt'"
        "Some (dict_set ''course_code'' (JStr code) d) \<noteq> None \<longrightarrow> dt' < dt"
        "\<forall>it\<in>set pre. \<forall>x. record_date (snd it) = Some x \<and> now \<le> x \<longrightarrow> dt' < x"
        "\<forall>it\<in>set post. \<forall>x. record_date (snd it) = Some x \<and> now \<le> x \<longrightarrow> dt' \<le> x"
      from a(5) have lt: "dt' < dt" by simp
      have "item # items = (item # pre) @ (c, JObj d') # post" using a(1) by simp
      moreover have "\<forall>it\<in>set (item # pre). \<forall>x. record_date (snd it) = Some x \<and> now \<le> x \<longrightarrow> dt' < x"
        using a(6) lt take(1,2) by (auto simp del: split_paired_All split_paired_Ex simp: item)
      moreover have "acc \<noteq> None \<longrightarrow> dt' < bdt" using take(4) lt by auto
      ultimately show ?thesis using a(2-4,7) unfolding scan step by blast
    qed
  next
    case keep
    from keep(4) Cons.prems obtain c0 d0 where
      acc: "acc = Some (dict_set ''course_code'' (JStr c0) d0)" "record_date (JObj d0) = Some bdt"
      by auto
    have step: "?step = acc"
      using keep(1-3,5) acc by (simp add: consider_class_later)
    from keep(5) have le: "bdt \<le> dt" by simp
    from Cons.IH[OF Cons.prems] show ?thesis
    proof (elim disjE exE conjE)
      assume "scan_classes now items acc = acc"
        and "\<forall>it\<in>set items. \<forall>dt. record_date (snd it) = Some dt \<and> now \<le> dt \<longrightarrow> acc \<noteq> None \<and> bdt \<le> dt"
      with le keep(1,2,4) show ?thesis
        unfolding scan step by (auto simp del: split_paired_All split_paired_Ex simp: item)
    next
      fix pre c d' post dt'
      assume a: "items = pre @ (c, JObj d') # post"
        "scan_classes now items acc = Some (dict_set ''course_code'' (JStr c) d')"
        "record_date (JObj d') = Some dt'" "now \<le> dt'" "acc \<noteq> None \<longrightarrow> dt' < bdt"
        "\<forall>it\<in>set pre. \<forall>x. record_date (snd it) = Some x \<and> now \<le> x \<longrightarrow> dt' < x"
        "\<forall>it\<in>set post. \<forall>x. record_date (snd it) = Some x \<and> now \<le> x \<longrightarrow> dt' \<le> x"
      from a(5) keep(4) le have lt: "dt' < dt" by auto
      have "item # items = (item # pre) @ (c, JObj d') # post" using a(1) by simp
      moreover have "\<forall>it\<in>set (item # pre). \<forall>x. record_date (snd it) = Some x \<and> now \<le> x \<longrightarrow> dt' < x"
        using a(6) lt keep(1,2) by (auto simp del: split_paired_All split_paired_Ex simp: item)
      ultimately show ?thesis using a(2-5,7) unfolding scan step by blast
    qed
  qed
qed

lemma get_next_class_eq:
  "get_next_class env department s =
     (Inr (if illegal_path (py_str department) \<or> faults env (length (trace s)) then None
           else (case or_empty_dict (db_get (db s) (segments (''classes/'' @ py_str department))) of
                   JObj items \<Rightarrow> scan_classes (today env) items None
                 | _ \<Rightarrow> None)),
      if illegal_path (py_str department) then s
      else s\<lparr>trace := trace s @ [(DbGet (''classes/'' @ py_str department),
                                     \<not> faults env (length (trace s)))]\<rparr>)"
proof (cases "illegal_path (py_str department) \<or> faults env (length (trace s))")
  case True
  then show ?thesis
    by (auto simp: get_next_class_def try_except_def bindA_def ref_get_eq returnA_def)
next
  case False
  then show ?thesis
    by (cases "or_empty_dict (db_get (db s) (segments (''classes/'' @ py_str department)))")
       (simp_all add: get_next_class_def try_except_def bindA_def ref_get_eq returnA_def liftE_def)
qed

lemma length_iso_date: "length (iso_date dt) = 10"
  by (cases dt) (simp add: iso_date_def two_digits_def)

text \<open>
  C1, as amended: when the class mapping of the department is fetched and at least
  one record is a dict whose date the parser of the format \<open>%Y-%m-%d\<close> accepts and
  which is today or later, the finder returns the first record in iteration order
  among those with the earliest such date (every upcoming record before it is
  strictly later, every one after it is not earlier); what it returns has the
  fields of that record and its key as \<open>course_code\<close>. When no record is upcoming,
  which includes the empty mapping, it returns nothing. A record that is not a dict
  or whose date the parser rejects is skipped on its own: the result is that of the
  scan without it. Every well-formed \<open>YYYY-MM-DD\<close> date is accepted by the parser,
  which also accepts a month or a day of one digit.
\<close>

theorem get_next_class_earliest_upcoming:
  assumes "\<not> illegal_path (''classes/'' @ py_str department)"
    and "\<not> faults env (length (trace s))"
    and "or_empty_dict (db_get (db s) (segments (''classes/'' @ py_str department))) = JObj items"
  shows "((\<exists>it\<in>set items. upcoming (today env) (snd it)) \<longrightarrow>
            (\<exists>pre code d post dt.
               items = pre @ (code, JObj d) # post
               \<and> fst (get_next_class env department s)
                   = Inr (Some (dict_set ''course_code'' (JStr code) d))
               \<and> map_of (dict_set ''course_code'' (JStr code) d)
                   = (map_of d)(''course_code'' \<mapsto> JStr code)
               \<and> record_date (JObj d) = Some dt \<and> today env \<le> dt
               \<and> (\<forall>it\<in>set pre. \<forall>dt'. record_date (snd it) = Some dt' \<and> today env \<le> dt' \<longrightarrow> dt < dt')
               \<and> (\<forall>it\<in>set post. \<forall>dt'. record_date (snd it) = Some dt' \<and> today env \<le> dt' \<longrightarrow> dt \<le> dt')))
       \<and> ((\<forall>it\<in>set items. \<not> upcoming (today env) (snd it)) \<longrightarrow>
            fst (get_next_class env department s) = Inr None)
       \<and> (\<forall>pre code details post.
            items = pre @ (code, details) # post \<and> record_date details = None \<longrightarrow>
            fst (get_next_class env department s) = Inr (scan_classes (today env) (pre @ post) None))
       \<and> (\<forall>d ds. map_of d ''date'' = Some (JStr ds) \<and> well_formed_ymd ds \<longrightarrow>
            (\<exists>dt. record_date (JObj d) = Some dt \<and> ds = iso_date dt))"
proof -
  have res: "fst (get_next_class env department s) = Inr (scan_classes (today env) items None)"
    using assms by (simp add: get_next_class_eq)
  have aug: "\<And>code d. map_of (dict_set ''course_code'' (JStr code) d)
                   = (map_of d)(''course_code'' \<mapsto> JStr code)"
    by (rule ext) (simp add: map_of_dict_set)
  have sel: "(scan_classes (today env) items None = None
          \<and> (\<forall>it\<in>set items. \<forall>dt. record_date (snd it) = Some dt \<and> today env \<le> dt
                \<longrightarrow> (None :: (string \<times> json) list option) \<noteq> None \<and> today env \<le> dt))
       \<or> (\<exists>pre code d post dt.
            items = pre @ (code, JObj d) # post
            \<and> scan_classes (today env) items None = Some (dict_set ''course_code'' (JStr code) d)
            \<and> record_date (JObj d) = Some dt \<and> today env \<le> dt
            \<and> ((None :: (string \<times> json) list option) \<noteq> None \<longrightarrow> dt < today env)
            \<and> (\<forall>it\<in>set pre. \<forall>dt'. record_date (snd it) = Some dt' \<and> today env \<le> dt' \<longrightarrow> dt < dt')
            \<and> (\<forall>it\<in>set post. \<forall>dt'. record_date (snd it) = Some dt' \<and> today env \<le> dt' \<longrightarrow> dt \<le> dt'))"
    by (rule scan_classes_select) simp
  have first: "(\<exists>it\<in>set items. upcoming (today env) (snd it)) \<longrightarrow>
            (\<exists>pre code d post dt.
               items = pre @ (code, JObj d) # post
               \<and> fst (get_next_class env department s)
                   = Inr (Some (dict_set ''course_code'' (JStr code) d))
               \<and> map_of (dict_set ''course_code'' (JStr code) d)
                   = (map_of d)(''course_code'' \<mapsto> JStr code)
               \<and> record_date (JObj d) = Some dt \<and> today env \<le> dt
               \<and> (\<forall>it\<in>set pre. \<forall>dt'. record_date (snd it) = Some dt' \<and> today env \<le> dt' \<longrightarrow> dt < dt')
               \<and> (\<forall>it\<in>set post. \<forall>dt'. record_date (snd it) = Some dt' \<and> today env \<le> dt' \<longrightarrow> dt \<le> dt'))"
    using sel aug unfolding res upcoming_iff by blast
  have second: "(\<forall>it\<in>set items. \<not> upcoming (today env) (snd it)) \<longrightarrow>
            fst (get_next_class env department s) = Inr None"
  proof
    assume none: "\<forall>it\<in>set items. \<not> upcoming (today env) (snd it)"
    from sel show "fst (get_next_class env department s) = Inr None"
    proof (elim disjE exE conjE)
      fix pre code d post dt
      assume "items = pre @ (code, JObj d) # post" "record_date (JObj d) = Some dt" "today env \<le> dt"
      then have "upcoming (today env) (snd (code, JObj d))" and "(code, JObj d) \<in> set items"
        by (auto simp: upcoming_iff)
      with none show ?thesis by blast
    qed (simp add: res)
  qed
  have third: "\<forall>pre code details post.
            items = pre @ (code, details) # post \<and> record_date details = None \<longrightarrow>
            fst (get_next_class env department s) = Inr (scan_classes (today env) (pre @ post) None)"
    by (auto simp: res upcoming_def intro!: scan_classes_skip)
  have fourth: "\<forall>d ds. map_of d ''date'' = Some (JStr ds) \<and> well_formed_ymd ds \<longrightarrow>
            (\<exists>dt. record_date (JObj d) = Some dt \<and> ds = iso_date dt)"
    unfolding well_formed_ymd_def using record_date_iso_date by blast
  from first second third fourth show ?thesis by blast
qed

theorem get_next_class_earliest_upcoming_witness:
  "\<not> illegal_path (''classes/'' @ py_str (JStr ''SE''))
   \<and> \<not> faults quiet_env (length (trace (start sample_db)))
   \<and> or_empty_dict (db_get (db (start sample_db)) (segments (''classes/'' @ py_str (JStr ''SE''))))
       = JObj se_classes
   \<and> upcoming (today quiet_env) (snd (se_classes ! 0))
   \<and> fst (get_next_class quiet_env (JStr ''SE'') (start sample_db))
       = Inr (Some [(''date'', JStr ''2025-02-01''), (''time'', JStr ''09:00''),
                    (''lecturer'', JStr ''Dr Jones''), (''course_code'', JStr ''cs101'')])
   \<and> (\<exists>pre code d post dt.
         se_classes = pre @ (code, JObj d) # post
         \<and> fst (get_next_class quiet_env (JStr ''SE'') (start sample_db))
             = Inr (Some (dict_set ''course_code'' (JStr code) d))
         \<and> record_date (JObj d) = Some dt \<and> today quiet_env \<le> dt)"
proof -
  have v: "\<not> illegal_path (''classes/'' @ py_str (JStr ''SE''))"
    by code_simp
  have a: "\<not> faults quiet_env (length (trace (start sample_db)))"
    by (simp add: quiet_env_def)
  have b: "or_empty_dict (db_get (db (start sample_db)) (segments (''classes/'' @ py_str (JStr ''SE''))))
       = JObj se_classes"
    by code_simp
  have c: "upcoming (today quiet_env) (snd (se_classes ! 0))"
    by code_simp
  have d: "se_classes ! 0 \<in> set se_classes"
    by (simp add: se_classes_def)
  have e: "fst (get_next_class quiet_env (JStr ''SE'') (start sample_db))
       = Inr (Some [(''date'', JStr ''2025-02-01''), (''time'', JStr ''09:00''),
                    (''lecturer'', JStr ''Dr Jones''), (''course_code'', JStr ''cs101'')])"
    by code_simp
  from get_next_class_earliest_upcoming[OF v a b] c d
  have "\<exists>pre code d post dt.
         se_classes = pre @ (code, JObj d) # post
         \<and> fst (get_next_class quiet_env (JStr ''SE'') (start sample_db))
             = Inr (Some (dict_set ''course_code'' (JStr code) d))
         \<and> record_date (JObj d) = Some dt \<and> today quiet_env \<le> dt"
    by blast
  with v a b c e show ?thesis by blast
qed

text \<open>
  The claim as stated counts only well-formed \<open>YYYY-MM-DD\<close> dates and has every other
  record skipped. The parser of line 76 also accepts \<open>2025-3-1\<close>, which is not of that
  form: in a department with a class on \<open>2025-3-1\<close> and a class on \<open>2025-03-05\<close> the
  finder returns the former, where the claim has it skipped and the latter returned.
\<close>

theorem unpadded_date_is_not_skipped:
  "\<not> well_formed_ymd ''2025-3-1'' \<and> well_formed_ymd ''2025-03-05''
   \<and> fst (get_next_class quiet_env (JStr ''ME'') (start loose_dates_db))
       = Inr (Some [(''date'', JStr ''2025-3-1''), (''time'', JStr ''10:00''),
                    (''lecturer'', JStr ''Dr Watt''), (''course_code'', JStr ''ME110'')])"
proof -
  have a: "\<not> well_formed_ymd ''2025-3-1''"
  proof
    assume "well_formed_ymd ''2025-3-1''"
    then obtain dt where "''2025-3-1'' = iso_date dt" by (auto simp: well_formed_ymd_def)
    then have "length ''2025-3-1'' = length (iso_date dt)" by simp
    then show False by (simp add: length_iso_date)
  qed
  have "valid_date (2025, 3, 5)" "''2025-03-05'' = iso_date (2025, 3, 5)"
    by code_simp+
  then have b: "well_formed_ymd ''2025-03-05''"
    unfolding well_formed_ymd_def by blast
  have c: "fst (get_next_class quiet_env (JStr ''ME'') (start loose_dates_db))
       = Inr (Some [(''date'', JStr ''2025-3-1''), (''time'', JStr ''10:00''),
                    (''lecturer'', JStr ''Dr Watt''), (''course_code'', JStr ''ME110'')])"
    by code_simp
  from a b c show ?thesis by blast
qed

section \<open>The structure of the webhook\<close>

lemma bindA_const_result:
  "bindA m (\<lambda>u. returnA c) s = (Inr r, s') \<Longrightarrow> r = c"
  by (auto simp: bindA_def returnA_def split: prod.splits sum.splits)

lemma bindA_const_state:
  "snd (bindA m (\<lambda>u. returnA c) s) = snd (m s)"
  by (auto simp: bindA_def returnA_def split: prod.splits sum.splits)

lemma route_result: "route env from_number body is_admin s = (Inr r, s') \<Longrightarrow> r = Some ok200"
  by (auto simp: route_def dest: bindA_const_result split: if_splits)

lemma route_then_introduction:
  "bindA (route env from_number body is_admin)
         (\<lambda>returned. case returned of Some resp \<Rightarrow> returnA (Some resp)
                                      | None \<Rightarrow> introduction env from_number) s
     = route env from_number body is_admin s"
proof (cases "route env from_number body is_admin s")
  case (Pair r s')
  show ?thesis
  proof (cases r)
    case (Inl e)
    with Pair show ?thesis by (simp add: bindA_def)
  next
    case (Inr x)
    with Pair route_result[of env from_number body is_admin s x s'] show ?thesis
      by (simp add: bindA_def returnA_def)
  qed
qed

lemma process_payload_message:
  assumes "inbound_message data = Some (from_number, body)"
  shows "process_payload env data s =
           bindA (ref_get env (''admins/'' @ py_str from_number))
                 (\<lambda>admin_flag. route env from_number body (admin_flag = JBool True)) s"
proof -
  from assms obtain messages msg where
    m: "envelope_messages data = Inr messages" "truthy messages" "py_index0 messages = Inr msg"
       "py_getitem msg ''from'' = Inr from_number"
       "bindE (py_getitem msg ''text'') (\<lambda>t. bindE (py_getitem t ''body'') strip_method) = Inr body"
    by (auto simp: inbound_message_def bindE_def split: sum.splits if_splits)
  have "process_payload env data s =
          bindA (ref_get env (''admins/'' @ py_str from_number))
            (\<lambda>admin_flag. bindA (route env from_number body (admin_flag = JBool True))
               (\<lambda>returned. case returned of Some resp \<Rightarrow> returnA (Some resp)
                                            | None \<Rightarrow> introduction env from_number)) s"
    using m by (simp add: process_payload_def)
  also have "\<dots> = bindA (ref_get env (''admins/'' @ py_str from_number))
                 (\<lambda>admin_flag. route env from_number body (admin_flag = JBool True)) s"
    by (simp add: bindA_def route_then_introduction[unfolded bindA_def] cong: prod.case_cong sum.case_cong)
  finally show ?thesis .
qed

lemma process_payload_no_message:
  assumes "inbound_message data = None"
  shows "snd (process_payload env data s) = s \<and> fst (process_payload env data s) \<noteq> Inr (Some resp)"
proof (cases "envelope_messages data")
  case (Inl e)
  then show ?thesis by (simp add: process_payload_def)
next
  case (Inr messages)
  show ?thesis
  proof (cases "truthy messages")
    case False
    with Inr show ?thesis by (simp add: process_payload_def returnA_def)
  next
    case True
    show ?thesis
    proof (cases "py_index0 messages")
      case (Inl e)
      with Inr True show ?thesis by (simp add: process_payload_def)
    next
      case msg: (Inr msg)
      show ?thesis
      proof (cases "py_getitem msg ''from''")
        case (Inl e)
        with Inr True msg show ?thesis by (simp add: process_payload_def)
      next
        case f: (Inr from_number)
        show ?thesis
        proof (cases "bindE (py_getitem msg ''text'') (\<lambda>t. bindE (py_getitem t ''body'') strip_method)")
          case (Inl e)
          with Inr True msg f show ?thesis by (simp add: process_payload_def)
        next
          case b: (Inr body)
          with Inr True msg f assms show ?thesis
            by (simp add: inbound_message_def bindE_def)
        qed
      qed
    qed
  qed
qed

lemma process_payload_result:
  "process_payload env data s = (Inr (Some resp), s') \<Longrightarrow> resp = ok200"
proof (cases "inbound_message data")
  case None
  assume "process_payload env data s = (Inr (Some resp), s')"
  with process_payload_no_message[OF None, of env s resp] show ?thesis by simp
next
  case (Some fb)
  assume a: "process_payload env data s = (Inr (Some resp), s')"
  obtain f b where "fb = (f, b)" by (cases fb)
  with Some a process_payload_message[of data f b env s] show ?thesis
    by (auto simp: bindA_def split: prod.splits sum.splits dest: route_result)
qed

lemma whatsapp_webhook_post:
  assumes "http_method req = POST" and "is_json req" and "json_body req = Some data"
  shows "whatsapp_webhook env req database = (ok200, snd (process_payload env data (start database)))"
proof (cases "process_payload env data (start database)")
  case (Pair r s')
  show ?thesis
  proof (cases r)
    case (Inl e)
    with Pair assms show ?thesis
      by (simp add: whatsapp_webhook_def get_json_def try_except_def returnA_def start_def)
  next
    case (Inr x)
    show ?thesis
    proof (cases x)
      case None
      with Inr Pair assms show ?thesis
        by (simp add: whatsapp_webhook_def get_json_def try_except_def returnA_def start_def)
    next
      case (Some resp)
      with Inr Pair have "resp = ok200" by (auto dest: process_payload_result)
      with Some Inr Pair assms show ?thesis
        by (simp add: whatsapp_webhook_def get_json_def try_except_def returnA_def start_def)
    qed
  qed
qed

lemma whatsapp_webhook_message:
  assumes "http_method req = POST" and "is_json req" and "json_body req = Some data"
    and "inbound_message data = Some (from_number, body)"
  shows "whatsapp_webhook env req database =
           (ok200,
            if illegal_path (py_str from_number) then \<lparr>db = database, trace = []\<rparr>
            else if faults env 0
            then \<lparr>db = database, trace = [(DbGet (''admins/'' @ py_str from_number), False)]\<rparr>
            else snd (route env from_number body
                        (db_get database (segments (''admins/'' @ py_str from_number)) = JBool True)
                        \<lparr>db = database, trace = [(DbGet (''admins/'' @ py_str from_number), True)]\<rparr>))"
  by (simp add: whatsapp_webhook_post[OF assms(1-3)] process_payload_message[OF assms(4)]
        bindA_def ref_get_eq start_def)

section \<open>The status of the webhook\<close>



text \<open>The gate itself: a POST under any other content type is answered with 415 and
  nothing is called, whatever its body.\<close>

lemma webhook_post_without_json_content_type:
  assumes "http_method req = POST" and "\<not> is_json req"
  shows "whatsapp_webhook env req database
           = ((Json (JObj [(''error'', JStr ''Content-Type must be application/json'')]), 415),
              \<lparr>db = database, trace = []\<rparr>)"
  using assms by (simp add: whatsapp_webhook_def)

section \<open>The effects of the branches\<close>

subsection \<open>The store\<close>

lemma db_get_db_set_same: "db_get (db_set node path v) path = v"
proof (induction path arbitrary: node)
  case Nil
  then show ?case by simp
next
  case (Cons k ks)
  then show ?case by (cases node) (simp_all add: map_of_dict_set)
qed

lemma db_get_db_set_other:
  "k \<noteq> k' \<Longrightarrow> db_get (db_set node (k # ks) v) (k' # ks') = db_get node (k' # ks')"
  by (cases node) (simp_all add: map_of_dict_set)

lemma split_path_not_Nil [simp]: "split_path p \<noteq> []"
  by (induction p) (auto split: list.splits)

subsection \<open>What actions add to the trace\<close>

lemma emits_returnA [intro!]: "emits P (returnA x)"
  by (simp add: emits_def returnA_def)

lemma emits_raiseA [intro!]: "emits P (raiseA e)"
  by (simp add: emits_def raiseA_def)

lemma emits_liftE [intro!]: "emits P (liftE r)"
  by (simp add: emits_def liftE_def)

lemma emits_bindA:
  assumes "emits P m" and "\<And>x. emits P (f x)"
  shows "emits P (bindA m f)"
  unfolding emits_def
proof
  fix s
  obtain r s1 where m: "m s = (r, s1)" by (cases "m s")
  from assms(1) m obtain n1 where n1: "trace s1 = trace s @ n1" "list_all (\<lambda>e. P (fst e)) n1"
    by (auto simp: emits_def dest!: spec[of _ s])
  show "\<exists>new. trace (snd (bindA m f s)) = trace s @ new \<and> list_all (\<lambda>e. P (fst e)) new"
  proof (cases r)
    case (Inl e)
    with m n1 show ?thesis by (auto simp: bindA_def)
  next
    case (Inr x)
    from assms(2)[of x] obtain n2 where
      "trace (snd (f x s1)) = trace s1 @ n2" "list_all (\<lambda>e. P (fst e)) n2"
      by (auto simp: emits_def dest!: spec[of _ s1])
    with m n1 Inr have "trace (snd (bindA m f s)) = trace s @ (n1 @ n2)"
      "list_all (\<lambda>e. P (fst e)) (n1 @ n2)"
      by (simp_all add: bindA_def)
    then show ?thesis by blast
  qed
qed

lemma emits_bindA_liftE:
  assumes "\<And>x. r = Inr x \<Longrightarrow> emits P (f x)"
  shows "emits P (bindA (liftE r) f)"
proof (cases r)
  case (Inl e)
  then show ?thesis by (simp add: emits_def bindA_def liftE_def)
next
  case (Inr x)
  with assms[of x] show ?thesis by (simp add: emits_def bindA_def liftE_def)
qed

lemma emits_try_except:
  assumes "emits P m" and "\<And>e. emits P (h e)"
  shows "emits P (try_except m h)"
  unfolding emits_def
proof
  fix s
  obtain r s1 where m: "m s = (r, s1)" by (cases "m s")
  from assms(1) m obtain n1 where n1: "trace s1 = trace s @ n1" "list_all (\<lambda>e. P (fst e)) n1"
    by (auto simp: emits_def dest!: spec[of _ s])
  show "\<exists>new. trace (snd (try_except m h s)) = trace s @ new \<and> list_all (\<lambda>e. P (fst e)) new"
  proof (cases r)
    case (Inr x)
    with m n1 show ?thesis by (auto simp: try_except_def)
  next
    case (Inl e)
    from assms(2)[of e] obtain n2 where
      "trace (snd (h e s1)) = trace s1 @ n2" "list_all (\<lambda>e. P (fst e)) n2"
      by (auto simp: emits_def dest!: spec[of _ s1])
    with m n1 Inl have "trace (snd (try_except m h s)) = trace s @ (n1 @ n2)"
      "list_all (\<lambda>e. P (fst e)) (n1 @ n2)"
      by (simp_all add: try_except_def)
    then show ?thesis by blast
  qed
qed

lemma emits_ref_get: "P (DbGet path) \<Longrightarrow> emits P (ref_get env path)"
  by (simp add: emits_def ref_get_eq)

lemma emits_ref_set: "P (DbSet path v) \<Longrightarrow> emits P (ref_set env path v)"
  by (simp add: emits_def ref_set_eq)

lemma emits_send: "P (Send to message) \<Longrightarrow> emits P (send_whatsapp_message env to message)"
  by (simp add: emits_def send_eq)

lemma emits_chat: "P (Chat body) \<Longrightarrow> emits P (chat_completion env body)"
  by (simp add: emits_def chat_eq)

lemma emits_bindA_chat:
  assumes "P (Chat body)" and "emits P (f (assistant env body))"
  shows "emits P (bindA (chat_completion env body) f)"
  unfolding emits_def
proof
  fix s
  show "\<exists>new. trace (snd (bindA (chat_completion env body) f s)) = trace s @ new
              \<and> list_all (\<lambda>e. P (fst e)) new"
  proof (cases "faults env (length (trace s))")
    case True
    with assms(1) show ?thesis by (simp add: bindA_def chat_eq)
  next
    case False
    let ?s1 = "s\<lparr>trace := trace s @ [(Chat body, True)]\<rparr>"
    from assms(2) obtain n2 where
      "trace (snd (f (assistant env body) ?s1)) = trace ?s1 @ n2" "list_all (\<lambda>e. P (fst e)) n2"
      by (auto simp: emits_def dest!: spec[of _ ?s1])
    with False assms(1) have
      "trace (snd (bindA (chat_completion env body) f s)) = trace s @ ((Chat body, True) # n2)"
      "list_all (\<lambda>e. P (fst e)) ((Chat body, True) # n2)"
      by (simp_all add: bindA_def chat_eq)
    then show ?thesis by blast
  qed
qed

lemma emits_get_department: "P (DbGet (''students/'' @ py_str whatsapp)) \<Longrightarrow> emits P (get_department env whatsapp)"
  by (simp add: emits_def get_department_eq)

lemma emits_get_next_class: "P (DbGet (''classes/'' @ py_str department)) \<Longrightarrow> emits P (get_next_class env department)"
  by (simp add: emits_def get_next_class_eq)

lemma emitsD:
  assumes "emits P m" and "(ev, ok) \<in> set (trace (snd (m s)))"
  shows "(ev, ok) \<in> set (trace s) \<or> P ev"
proof -
  from assms(1) obtain new where "trace (snd (m s)) = trace s @ new" "list_all (\<lambda>e. P (fst e)) new"
    by (auto simp: emits_def dest!: spec[of _ s])
  with assms(2) show ?thesis by (auto simp: list_all_iff)
qed

subsection \<open>Actions that leave the store alone\<close>

lemma keeps_db_returnA [intro!]: "keeps_db (returnA x)"
  by (simp add: keeps_db_def returnA_def)

lemma keeps_db_raiseA [intro!]: "keeps_db (raiseA e)"
  by (simp add: keeps_db_def raiseA_def)

lemma keeps_db_liftE [intro!]: "keeps_db (liftE r)"
  by (simp add: keeps_db_def liftE_def)

lemma keeps_db_bindA:
  assumes "keeps_db m" and "\<And>x. keeps_db (f x)"
  shows "keeps_db (bindA m f)"
  unfolding keeps_db_def
proof
  fix s
  obtain r s1 where m: "m s = (r, s1)" by (cases "m s")
  with assms(1) have "db s1 = db s" by (auto simp: keeps_db_def dest!: spec[of _ s])
  moreover have "\<And>x. db (snd (f x s1)) = db s1" using assms(2) by (simp add: keeps_db_def)
  ultimately show "db (snd (bindA m f s)) = db s"
    using m by (cases r) (simp_all add: bindA_def)
qed

lemma keeps_db_try_except:
  assumes "keeps_db m" and "\<And>e. keeps_db (h e)"
  shows "keeps_db (try_except m h)"
  unfolding keeps_db_def
proof
  fix s
  obtain r s1 where m: "m s = (r, s1)" by (cases "m s")
  with assms(1) have "db s1 = db s" by (auto simp: keeps_db_def dest!: spec[of _ s])
  moreover have "\<And>e. db (snd (h e s1)) = db s1" using assms(2) by (simp add: keeps_db_def)
  ultimately show "db (snd (try_except m h s)) = db s"
    using m by (cases r) (simp_all add: try_except_def)
qed

lemma keeps_db_ref_get [intro!]: "keeps_db (ref_get env path)"
  by (simp add: keeps_db_def ref_get_eq)

lemma keeps_db_send [intro!]: "keeps_db (send_whatsapp_message env to message)"
  by (simp add: keeps_db_def send_eq)

lemma keeps_db_chat [intro!]: "keeps_db (chat_completion env body)"
  by (simp add: keeps_db_def chat_eq)

lemma keeps_db_get_department [intro!]: "keeps_db (get_department env whatsapp)"
  by (simp add: keeps_db_def get_department_eq)

lemma keeps_db_get_next_class [intro!]: "keeps_db (get_next_class env department)"
  by (simp add: keeps_db_def get_next_class_eq)

subsection \<open>The branches that only read\<close>

lemma ask_assistant_reads: "emits (\<lambda>ev. \<not> is_write ev) (ask_assistant env from_number body)"
  unfolding ask_assistant_def
  by (intro emits_try_except emits_bindA emits_chat emits_send) simp_all

lemma ask_assistant_keeps_db: "keeps_db (ask_assistant env from_number body)"
  unfolding ask_assistant_def
  by (intro keeps_db_try_except keeps_db_bindA keeps_db_chat keeps_db_send)

lemma course_or_assistant_reads:
  "emits (\<lambda>ev. \<not> is_write ev) (course_or_assistant env from_number body)"
  unfolding course_or_assistant_def
  by (intro emits_bindA emits_get_department emits_ref_get emits_bindA_liftE)
     (auto intro!: emits_bindA_liftE emits_send ask_assistant_reads)

lemma course_or_assistant_keeps_db: "keeps_db (course_or_assistant env from_number body)"
  unfolding course_or_assistant_def
  by (intro keeps_db_bindA keeps_db_get_department keeps_db_ref_get keeps_db_liftE)
     (auto intro!: keeps_db_bindA ask_assistant_keeps_db)

subsection \<open>The admin command\<close>

lemma adminupdate_is_no_phrase:
  assumes "startswith x ''adminupdate''"
  shows "x \<noteq> ''next class''" and "x \<noteq> ''when is my next class?''" and "x \<noteq> ''my courses''"
  using assms by auto

lemma py_split_no_break_space:
  "py_split (''adminupdate SE CS101 2025-03-01'' @ [CHR 0xA0] @ ''10:00'')
     = [''adminupdate'', ''SE'', ''CS101'', ''2025-03-01'', ''10:00'']"
  by code_simp

text \<open>What \<open>split\<close> gives: the text without its whitespace, cut into tokens that are
  not empty and have no whitespace.\<close>

lemma concat_split_ws:
  "concat (split_ws cur s) = rev cur @ filter (\<lambda>c. \<not> py_isspace c) s"
proof (induction s arbitrary: cur)
  case Nil
  then show ?case by simp
next
  case (Cons c cs)
  then show ?case by simp
qed

lemma tokens_split_ws:
  "\<forall>c\<in>set cur. \<not> py_isspace c \<Longrightarrow> t \<in> set (split_ws cur s)
     \<Longrightarrow> t \<noteq> [] \<and> (\<forall>c\<in>set t. \<not> py_isspace c)"
proof (induction s arbitrary: cur)
  case Nil
  then show ?case by (auto split: if_splits)
next
  case (Cons c cs)
  show ?case
  proof (cases "py_isspace c")
    case False
    with Cons.prems have "t \<in> set (split_ws (c # cur) cs)" "\<forall>x\<in>set (c # cur). \<not> py_isspace x"
      by simp_all
    then show ?thesis using Cons.IH[of "c # cur"] by blast
  next
    case True
    show ?thesis
    proof (cases "cur = []")
      case True
      with \<open>py_isspace c\<close> Cons.prems have "t \<in> set (split_ws [] cs)" by simp
      then show ?thesis using Cons.IH[of "[]"] by simp
    next
      case False
      with \<open>py_isspace c\<close> Cons.prems have "t = rev cur \<or> t \<in> set (split_ws [] cs)" by simp
      then show ?thesis
      proof
        assume "t = rev cur"
        with False Cons.prems(1) show ?thesis by simp
      next
        assume "t \<in> set (split_ws [] cs)"
        then show ?thesis using Cons.IH[of "[]"] by simp
      qed
    qed
  qed
qed

lemma py_split_tokens:
  "concat (py_split s) = filter (\<lambda>c. \<not> py_isspace c) s"
  "t \<in> set (py_split s) \<Longrightarrow> t \<noteq> [] \<and> (\<forall>c\<in>set t. \<not> py_isspace c)"
  using tokens_split_ws[of "[]" t s] by (simp_all add: py_split_def concat_split_ws)

lemma py_join_closed:
  "py_join sep ws = (case ws of [] \<Rightarrow> [] | w # rest \<Rightarrow> w @ concat (map (\<lambda>x. sep @ x) rest))"
  by (induction sep ws rule: py_join.induct) simp_all

lemma admin_update_short:
  assumes "length (py_split body) < 5"
  shows "admin_update env from_number body s
           = send_whatsapp_message env from_number ''Error: Invalid adminupdate format.'' s"
  using assms by (auto simp: admin_update_def try_except_def raiseA_def split: list.splits)

lemma admin_update_done:
  assumes "py_split body = cmd # dept # code # date # time # lecturer"
    and "\<not> illegal_path dept" and "\<not> illegal_path code"
    and "\<not> faults env (length (trace s))" and "\<not> faults env (Suc (length (trace s)))"
  shows "admin_update env from_number body s =
           (Inr (),
            s\<lparr>trace := trace s @
                  [(DbSet (''classes/'' @ dept @ ''/'' @ code)
                      (JObj [(''date'', JStr date), (''time'', JStr time),
                             (''lecturer'', JStr (py_join '' '' lecturer))]), True),
                   (Send from_number (''Schedule updated for '' @ code @ ''.''), True)],
               db := db_set (db s) (segments (''classes/'' @ dept @ ''/'' @ code))
                       (JObj [(''date'', JStr date), (''time'', JStr time),
                              (''lecturer'', JStr (py_join '' '' lecturer))])\<rparr>)"
  using assms by (simp add: admin_update_def try_except_def bindA_def ref_set_eq send_eq)

text \<open>
  C2, as amended: for a message whose trimmed text starts, whatever its letter
  case, with \<open>adminupdate\<close>: when the sender's admin flag is the value \<open>true\<close>, the
  text has five tokens or more, the department and the course code have none of
  the characters \<open>[ ] . ? # $\<close> that the store refuses in a path, and the write and
  the send complete, the record at \<open>classes/{dept}/{code}\<close> becomes exactly date,
  time and lecturer, the lecturer being the remaining tokens with one space between
  each two, the confirmation naming the course code is sent and the answer is 200;
  when the flag is anything else, the store is left as it was and no write is even
  attempted.
\<close>

theorem adminupdate_replaces_class_record:
  assumes "http_method req = POST" and "is_json req" and "json_body req = Some data"
    and "inbound_message data = Some (from_number, body)"
    and "startswith (py_lower body) ''adminupdate''"
  shows "(\<not> illegal_path (''admins/'' @ py_str from_number) \<and> \<not> faults env 0
          \<and> db_get database (segments (''admins/'' @ py_str from_number)) = JBool True
          \<and> py_split body = cmd # dept # code # date # time # lecturer
          \<and> \<not> illegal_path (''classes/'' @ dept @ ''/'' @ code)
          \<and> \<not> faults env 1 \<and> \<not> faults env 2 \<longrightarrow>
            whatsapp_webhook env req database =
              ((Text ''OK'', 200),
               \<lparr>db = db_set database (segments (''classes/'' @ dept @ ''/'' @ code))
                       (JObj [(''date'', JStr date), (''time'', JStr time),
                              (''lecturer'',
                               JStr (case lecturer of
                                       [] \<Rightarrow> []
                                     | w # rest \<Rightarrow> w @ concat (map (\<lambda>x. '' '' @ x) rest)))]),
                 trace = [(DbGet (''admins/'' @ py_str from_number), True),
                          (DbSet (''classes/'' @ dept @ ''/'' @ code)
                             (JObj [(''date'', JStr date), (''time'', JStr time),
                                    (''lecturer'',
                                     JStr (case lecturer of
                                             [] \<Rightarrow> []
                                           | w # rest \<Rightarrow> w @ concat (map (\<lambda>x. '' '' @ x) rest)))]),
                           True),
                          (Send from_number (''Schedule updated for '' @ code @ ''.''), True)]\<rparr>)
            \<and> db_get (db (snd (whatsapp_webhook env req database)))
                 (segments (''classes/'' @ dept @ ''/'' @ code))
                = JObj [(''date'', JStr date), (''time'', JStr time),
                        (''lecturer'',
                         JStr (case lecturer of
                                 [] \<Rightarrow> []
                               | w # rest \<Rightarrow> w @ concat (map (\<lambda>x. '' '' @ x) rest)))])
       \<and> (db_get database (segments (''admins/'' @ py_str from_number)) \<noteq> JBool True \<longrightarrow>
            db (snd (whatsapp_webhook env req database)) = database
            \<and> (\<forall>ev ok. (ev, ok) \<in> set (trace (snd (whatsapp_webhook env req database)))
                  \<longrightarrow> \<not> is_write ev))"
proof (intro conjI impI)
  let ?lect = "case lecturer of [] \<Rightarrow> [] | w # rest \<Rightarrow> w @ concat (map (\<lambda>x. '' '' @ x) rest)"
  let ?rec = "JObj [(''date'', JStr date), (''time'', JStr time), (''lecturer'', JStr ?lect)]"
  assume h: "\<not> illegal_path (''admins/'' @ py_str from_number) \<and> \<not> faults env 0
          \<and> db_get database (segments (''admins/'' @ py_str from_number)) = JBool True
          \<and> py_split body = cmd # dept # code # date # time # lecturer
          \<and> \<not> illegal_path (''classes/'' @ dept @ ''/'' @ code)
          \<and> \<not> faults env 1 \<and> \<not> faults env 2"
  let ?s1 = "\<lparr>db = database, trace = [(DbGet (''admins/'' @ py_str from_number), True)]\<rparr>"
  have j: "py_join '' '' lecturer = ?lect"
    by (rule py_join_closed)
  from h have upd: "admin_update env from_number body ?s1 =
           (Inr (),
            ?s1\<lparr>trace := trace ?s1 @
                  [(DbSet (''classes/'' @ dept @ ''/'' @ code) ?rec, True),
                   (Send from_number (''Schedule updated for '' @ code @ ''.''), True)],
               db := db_set (db ?s1) (segments (''classes/'' @ dept @ ''/'' @ code)) ?rec\<rparr>)"
    unfolding j[symmetric] by (intro admin_update_done) (simp_all add: numeral_2_eq_2)
  from h assms(5) have w0: "whatsapp_webhook env req database
      = (ok200, snd (admin_update env from_number body ?s1))"
    by (simp add: whatsapp_webhook_message[OF assms(1-4)] route_def bindA_const_state)
  show w: "whatsapp_webhook env req database =
              ((Text ''OK'', 200),
               \<lparr>db = db_set database (segments (''classes/'' @ dept @ ''/'' @ code)) ?rec,
                 trace = [(DbGet (''admins/'' @ py_str from_number), True),
                          (DbSet (''classes/'' @ dept @ ''/'' @ code) ?rec, True),
                          (Send from_number (''Schedule updated for '' @ code @ ''.''), True)]\<rparr>)"
    unfolding w0 upd by (simp add: ok200_def)
  show "db_get (db (snd (whatsapp_webhook env req database)))
                 (segments (''classes/'' @ dept @ ''/'' @ code)) = ?rec"
    unfolding w by (simp add: db_get_db_set_same)
next
  assume na: "db_get database (segments (''admins/'' @ py_str from_number)) \<noteq> JBool True"
  let ?s1 = "\<lparr>db = database, trace = [(DbGet (''admins/'' @ py_str from_number), True)]\<rparr>"
  have r: "\<And>s. snd (route env from_number body False s) = snd (course_or_assistant env from_number body s)"
    using adminupdate_is_no_phrase[OF assms(5)] by (simp add: route_def bindA_const_state)
  show "db (snd (whatsapp_webhook env req database)) = database"
    using na course_or_assistant_keeps_db[of env from_number body]
    by (simp add: whatsapp_webhook_message[OF assms(1-4)] r keeps_db_def)
  show "\<forall>ev ok. (ev, ok) \<in> set (trace (snd (whatsapp_webhook env req database))) \<longrightarrow> \<not> is_write ev"
  proof (intro allI impI)
    fix ev ok
    assume "(ev, ok) \<in> set (trace (snd (whatsapp_webhook env req database)))"
    then consider "ev = DbGet (''admins/'' @ py_str from_number)"
      | "(ev, ok) \<in> set (trace (snd (course_or_assistant env from_number body ?s1)))"
      using na by (auto simp: whatsapp_webhook_message[OF assms(1-4)] r split: if_splits)
    then show "\<not> is_write ev"
    proof cases
      case 1
      then show ?thesis by simp
    next
      case 2
      from emitsD[OF course_or_assistant_reads 2] show ?thesis by auto
    qed
  qed
qed

theorem adminupdate_replaces_class_record_witness:
  "inbound_message (delivery (JStr ''233200000001'') ''adminupdate SE CS101 2025-03-01 10:00 Dr Smith'')
     = Some (JStr ''233200000001'', ''adminupdate SE CS101 2025-03-01 10:00 Dr Smith'')
   \<and> startswith (py_lower ''adminupdate SE CS101 2025-03-01 10:00 Dr Smith'') ''adminupdate''
   \<and> \<not> illegal_path (''admins/'' @ py_str (JStr ''233200000001''))
   \<and> db_get sample_db (segments (''admins/'' @ py_str (JStr ''233200000001''))) = JBool True
   \<and> py_split ''adminupdate SE CS101 2025-03-01 10:00 Dr Smith''
       = ''adminupdate'' # ''SE'' # ''CS101'' # ''2025-03-01'' # ''10:00'' # [''Dr'', ''Smith'']
   \<and> \<not> illegal_path (''classes/'' @ ''SE'' @ ''/'' @ ''CS101'')
   \<and> trace (snd (whatsapp_webhook quiet_env
          (post_json (delivery (JStr ''233200000001'') ''adminupdate SE CS101 2025-03-01 10:00 Dr Smith''))
          sample_db))
       = [(DbGet ''admins/233200000001'', True),
          (DbSet ''classes/SE/CS101''
             (JObj [(''date'', JStr ''2025-03-01''), (''time'', JStr ''10:00''),
                    (''lecturer'', JStr ''Dr Smith'')]), True),
          (Send (JStr ''233200000001'') ''Schedule updated for CS101.'', True)]
   \<and> db_get (db (snd (whatsapp_webhook quiet_env
          (post_json (delivery (JStr ''233200000001'') ''adminupdate SE CS101 2025-03-01 10:00 Dr Smith''))
          sample_db)))
        (segments ''classes/SE/CS101'')
       = JObj [(''date'', JStr ''2025-03-01''), (''time'', JStr ''10:00''),
               (''lecturer'', JStr ''Dr Smith'')]
   \<and> db_get sample_db (segments (''admins/'' @ py_str (JStr ''233200000002''))) \<noteq> JBool True
   \<and> db (snd (whatsapp_webhook quiet_env
          (post_json (delivery (JStr ''233200000002'') ''adminupdate SE CS101 2025-03-01 10:00 Dr Smith''))
          sample_db)) = sample_db"
proof -
  let ?b = "''adminupdate SE CS101 2025-03-01 10:00 Dr Smith''"
  have r: "\<And>f. http_method (post_json (delivery f ?b)) = POST" "\<And>f. is_json (post_json (delivery f ?b))"
    "\<And>f. json_body (post_json (delivery f ?b)) = Some (delivery f ?b)"
    by (simp_all add: post_json_def)
  have i: "\<And>f. inbound_message (delivery f ?b) = Some (f, ?b)"
    by (simp add: inbound_message_def delivery_def envelope_messages_def bindE_def py_strip_def
          py_isspace_def)
  have p: "startswith (py_lower ?b) ''adminupdate''"
    by code_simp
  have v: "\<not> illegal_path (''admins/'' @ py_str (JStr ''233200000001''))"
    "\<not> illegal_path (''classes/'' @ ''SE'' @ ''/'' @ ''CS101'')"
    by code_simp+
  have a: "db_get sample_db (segments (''admins/'' @ py_str (JStr ''233200000001''))) = JBool True"
    by code_simp
  have t: "py_split ?b = ''adminupdate'' # ''SE'' # ''CS101'' # ''2025-03-01'' # ''10:00'' # [''Dr'', ''Smith'']"
    by code_simp
  have n: "db_get sample_db (segments (''admins/'' @ py_str (JStr ''233200000002''))) \<noteq> JBool True"
    by code_simp
  have q: "\<not> faults quiet_env 0" "\<not> faults quiet_env 1" "\<not> faults quiet_env 2"
    by (simp_all add: quiet_env_def)
  from adminupdate_replaces_class_record[OF r(1) r(2) r(3) i[of "JStr ''233200000001''"] p,
      where env = quiet_env and database = sample_db and cmd = "''adminupdate''" and dept = "''SE''"
        and code = "''CS101''" and date = "''2025-03-01''" and time = "''10:00''"
        and lecturer = "[''Dr'', ''Smith'']"]
    v a t q
  have one: "whatsapp_webhook quiet_env (post_json (delivery (JStr ''233200000001'') ?b)) sample_db =
              ((Text ''OK'', 200),
               \<lparr>db = db_set sample_db (segments (''classes/'' @ ''SE'' @ ''/'' @ ''CS101''))
                       (JObj [(''date'', JStr ''2025-03-01''), (''time'', JStr ''10:00''),
                              (''lecturer'',
                               JStr (case [''Dr'', ''Smith''] of
                                       [] \<Rightarrow> []
                                     | w # rest \<Rightarrow> w @ concat (map (\<lambda>x. '' '' @ x) rest)))]),
                 trace = [(DbGet (''admins/'' @ py_str (JStr ''233200000001'')), True),
                          (DbSet (''classes/'' @ ''SE'' @ ''/'' @ ''CS101'')
                             (JObj [(''date'', JStr ''2025-03-01''), (''time'', JStr ''10:00''),
                                    (''lecturer'',
                                     JStr (case [''Dr'', ''Smith''] of
                                             [] \<Rightarrow> []
                                           | w # rest \<Rightarrow> w @ concat (map (\<lambda>x. '' '' @ x) rest)))]),
                           True),
                          (Send (JStr ''233200000001'') (''Schedule updated for '' @ ''CS101'' @ ''.''),
                           True)]\<rparr>)"
    by blast
  have tr: "trace (snd (whatsapp_webhook quiet_env (post_json (delivery (JStr ''233200000001'') ?b))
                          sample_db))
       = [(DbGet ''admins/233200000001'', True),
          (DbSet ''classes/SE/CS101''
             (JObj [(''date'', JStr ''2025-03-01''), (''time'', JStr ''10:00''),
                    (''lecturer'', JStr ''Dr Smith'')]), True),
          (Send (JStr ''233200000001'') ''Schedule updated for CS101.'', True)]"
    unfolding one by simp
  have g: "db_get (db (snd (whatsapp_webhook quiet_env (post_json (delivery (JStr ''233200000001'') ?b))
                          sample_db)))
        (segments ''classes/SE/CS101'')
       = JObj [(''date'', JStr ''2025-03-01''), (''time'', JStr ''10:00''),
               (''lecturer'', JStr ''Dr Smith'')]"
    unfolding one using db_get_db_set_same[of sample_db "segments ''classes/SE/CS101''"] by simp
  from adminupdate_replaces_class_record[OF r(1) r(2) r(3) i[of "JStr ''233200000002''"] p,
      where env = quiet_env and database = sample_db] n
  have two: "db (snd (whatsapp_webhook quiet_env
          (post_json (delivery (JStr ''233200000002'') ?b)) sample_db)) = sample_db"
    by blast
  from i[of "JStr ''233200000001''"] p v a t tr g n two show ?thesis by blast
qed

text \<open>
  The claim as stated has no condition on the tokens. A course code with a dot is
  refused by the store client before anything is written: the \<open>try\<close> of line 126
  catches the error, the sender is sent the error text and the store is left as it
  was.
\<close>

theorem adminupdate_with_dotted_code_is_refused:
  "startswith (py_lower ''adminupdate SE CS.101 2025-03-01 10:00 Dr Smith'') ''adminupdate''
   \<and> db_get sample_db (segments ''admins/233200000001'') = JBool True
   \<and> py_split ''adminupdate SE CS.101 2025-03-01 10:00 Dr Smith''
       = [''adminupdate'', ''SE'', ''CS.101'', ''2025-03-01'', ''10:00'', ''Dr'', ''Smith'']
   \<and> whatsapp_webhook quiet_env
         (post_json (delivery (JStr ''233200000001'')
                       ''adminupdate SE CS.101 2025-03-01 10:00 Dr Smith'')) sample_db
       = ((Text ''OK'', 200),
          \<lparr>db = sample_db,
            trace = [(DbGet ''admins/233200000001'', True),
                     (Send (JStr ''233200000001'') ''Error: Invalid adminupdate format.'', True)]\<rparr>)"
  by code_simp

text \<open>
  C7: an admin whose \<open>adminupdate\<close> message has fewer than five tokens is sent the
  fixed error text; the store is not written (the only calls are the admin lookup
  and that send) and the answer is 200 with the body \<open>OK\<close>.
\<close>

theorem short_adminupdate_reports_error:
  assumes "http_method req = POST" and "is_json req" and "json_body req = Some data"
    and "inbound_message data = Some (from_number, body)"
    and "startswith (py_lower body) ''adminupdate''"
    and "\<not> illegal_path (''admins/'' @ py_str from_number)"
    and "\<not> faults env 0"
    and "db_get database (segments (''admins/'' @ py_str from_number)) = JBool True"
    and "length (py_split body) < 5"
  shows "whatsapp_webhook env req database =
           ((Text ''OK'', 200),
            \<lparr>db = database,
              trace = [(DbGet (''admins/'' @ py_str from_number), True),
                       (Send from_number ''Error: Invalid adminupdate format.'', \<not> faults env 1)]\<rparr>)"
  using assms(5-8)
  by (simp add: whatsapp_webhook_message[OF assms(1-4)] route_def bindA_const_state
        admin_update_short[OF assms(9)] send_eq ok200_def)

theorem short_adminupdate_reports_error_witness:
  "inbound_message (delivery (JStr ''233200000001'') ''AdminUpdate SE CS101 2025-03-01'')
     = Some (JStr ''233200000001'', ''AdminUpdate SE CS101 2025-03-01'')
   \<and> startswith (py_lower ''AdminUpdate SE CS101 2025-03-01'') ''adminupdate''
   \<and> \<not> illegal_path (''admins/'' @ py_str (JStr ''233200000001''))
   \<and> db_get sample_db (segments (''admins/'' @ py_str (JStr ''233200000001''))) = JBool True
   \<and> length (py_split ''AdminUpdate SE CS101 2025-03-01'') < 5
   \<and> whatsapp_webhook quiet_env
         (post_json (delivery (JStr ''233200000001'') ''AdminUpdate SE CS101 2025-03-01'')) sample_db
       = ((Text ''OK'', 200),
          \<lparr>db = sample_db,
            trace = [(DbGet (''admins/'' @ py_str (JStr ''233200000001'')), True),
                     (Send (JStr ''233200000001'') ''Error: Invalid adminupdate format.'',
                      \<not> faults quiet_env 1)]\<rparr>)"
proof -
  let ?b = "''AdminUpdate SE CS101 2025-03-01''"
  let ?f = "JStr ''233200000001''"
  have r: "http_method (post_json (delivery ?f ?b)) = POST" "is_json (post_json (delivery ?f ?b))"
    "json_body (post_json (delivery ?f ?b)) = Some (delivery ?f ?b)"
    by (simp_all add: post_json_def)
  have i: "inbound_message (delivery ?f ?b) = Some (?f, ?b)"
    by (simp add: inbound_message_def delivery_def envelope_messages_def bindE_def py_strip_def
          py_isspace_def)
  have p: "startswith (py_lower ?b) ''adminupdate''"
    by code_simp
  have v: "\<not> illegal_path (''admins/'' @ py_str ?f)"
    by code_simp
  have a: "db_get sample_db (segments (''admins/'' @ py_str ?f)) = JBool True"
    by code_simp
  have t: "length (py_split ?b) < 5"
    by code_simp
  have q: "\<not> faults quiet_env 0"
    by (simp add: quiet_env_def)
  from short_adminupdate_reports_error[OF r i p v q a t] i p v a t show ?thesis by blast
qed

subsection \<open>The next-class branch\<close>

lemma segments_students: "segments (''students/'' @ x) = ''students'' # segments x"
  by (simp add: segments_def split: list.splits)

lemma segments_classes_SE: "segments ''classes/SE'' = [''classes'', ''SE'']"
  by (simp add: segments_def)

lemma phrase_is_no_adminupdate:
  assumes "x \<in> set [''next class'', ''when is my next class?'']"
  shows "\<not> startswith x ''adminupdate''"
  using assms by auto

lemma next_class_query_scans_default:
  "emits (\<lambda>ev. \<not> scans_other_classes ev) (next_class_query env from_number)"
  unfolding next_class_query_def
  by (intro emits_bindA emits_get_department emits_get_next_class)
     (auto intro!: emits_ref_set emits_send emits_bindA_liftE)

lemma route_next_class:
  assumes "py_lower body \<in> set [''next class'', ''when is my next class?'']"
  shows "snd (route env from_number body is_admin s) = snd (next_class_query env from_number s)"
  using assms phrase_is_no_adminupdate[OF assms] by (simp add: route_def bindA_const_state)

lemma next_class_query_quiet:
  assumes "\<forall>n. \<not> faults env n"
    and "or_empty_dict (db_get (db s) [''classes'', ''SE'']) = JObj items"
    and legal: "\<not> illegal_path (py_str from_number)"
  shows "\<exists>mid. trace (snd (next_class_query env from_number s)) =
           trace s @ mid @ [(DbGet ''classes/SE'', True)] @
             (case scan_classes (today env) items None of
                None \<Rightarrow> [(Send from_number ''No upcoming classes found.'', True)]
              | Some nc \<Rightarrow>
                  (case next_class_text nc of
                     Inl e \<Rightarrow> []
                   | Inr message \<Rightarrow> [(Send from_number message, True)]))"
proof -
  let ?dept = "case db_get (db s) (segments (''students/'' @ py_str from_number)) of
                 JObj kvs \<Rightarrow> (case map_of kvs ''department'' of None \<Rightarrow> JStr ''SE'' | Some d \<Rightarrow> d)
               | _ \<Rightarrow> JStr ''SE''"
  have nn: "\<And>nc. not_next_class (scan_classes (today env) items None) \<longleftrightarrow> scan_classes (today env) items None = None"
  proof -
    have "(scan_classes (today env) items None = None
          \<and> (\<forall>it\<in>set items. \<forall>dt. record_date (snd it) = Some dt \<and> today env \<le> dt
                \<longrightarrow> (None :: (string \<times> json) list option) \<noteq> None \<and> today env \<le> dt))
       \<or> (\<exists>pre code d post dt.
            items = pre @ (code, JObj d) # post
            \<and> scan_classes (today env) items None = Some (dict_set ''course_code'' (JStr code) d)
            \<and> record_date (JObj d) = Some dt \<and> today env \<le> dt
            \<and> ((None :: (string \<times> json) list option) \<noteq> None \<longrightarrow> dt < today env)
            \<and> (\<forall>it\<in>set pre. \<forall>dt'. record_date (snd it) = Some dt' \<and> today env \<le> dt' \<longrightarrow> dt < dt')
            \<and> (\<forall>it\<in>set post. \<forall>dt'. record_date (snd it) = Some dt' \<and> today env \<le> dt' \<longrightarrow> dt \<le> dt'))"
      by (rule scan_classes_select) simp
    then show "not_next_class (scan_classes (today env) items None) \<longleftrightarrow> scan_classes (today env) items None = None"
      by (auto simp: not_next_class_def)
  qed
  show ?thesis
  proof (cases "?dept = JStr ''SE''")
    case True
    have keep: "or_empty_dict (db_get (db_set (db s) (segments (''students/'' @ py_str from_number))
                   (JObj [(''department'', JStr ''SE'')])) [''classes'', ''SE'']) = JObj items"
      using assms(2) unfolding segments_students by (simp add: db_get_db_set_other)
    show ?thesis
    proof (cases "scan_classes (today env) items None")
      case None
      with True assms(1) legal keep nn show ?thesis
        by (simp add: next_class_query_def bindA_def get_department_eq ref_set_eq
              get_next_class_eq send_eq segments_classes_SE)
    next
      case (Some nc)
      with True assms(1) legal keep nn show ?thesis
        by (cases "next_class_text nc")
           (simp_all add: next_class_query_def bindA_def get_department_eq ref_set_eq
              get_next_class_eq send_eq segments_classes_SE liftE_def)
    qed
  next
    case False
    show ?thesis
    proof (cases "scan_classes (today env) items None")
      case None
      with False assms nn show ?thesis
        by (simp add: next_class_query_def bindA_def get_department_eq returnA_def
              get_next_class_eq send_eq segments_classes_SE)
    next
      case (Some nc)
      with False assms nn show ?thesis
        by (cases "next_class_text nc")
           (simp_all add: next_class_query_def bindA_def get_department_eq returnA_def
              get_next_class_eq send_eq segments_classes_SE liftE_def)
    qed
  qed
qed

text \<open>
  C4: for a message whose trimmed text is, whatever its letter case, one of the two
  next-class phrases, the only class mapping the handler reads is \<open>classes/SE\<close>,
  whatever department the sender resolves to; and when no call raises (the store
  accepts the paths and every call completes), that mapping is read and the reply
  is the one for the class the finder selects in it.
\<close>

theorem next_class_always_scans_default_department:
  assumes "http_method req = POST" and "is_json req" and "json_body req = Some data"
    and "inbound_message data = Some (from_number, body)"
    and "py_lower body \<in> set [''next class'', ''when is my next class?'']"
  shows "(\<forall>ev ok. (ev, ok) \<in> set (trace (snd (whatsapp_webhook env req database)))
            \<longrightarrow> \<not> scans_other_classes ev)
       \<and> (\<not> illegal_path (''admins/'' @ py_str from_number) \<and> (\<forall>n. \<not> faults env n)
           \<and> or_empty_dict (db_get database (segments ''classes/SE'')) = JObj items \<longrightarrow>
            (DbGet ''classes/SE'', True) \<in> set (trace (snd (whatsapp_webhook env req database)))
            \<and> (case scan_classes (today env) items None of
                  None \<Rightarrow>
                    (Send from_number ''No upcoming classes found.'', True)
                      \<in> set (trace (snd (whatsapp_webhook env req database)))
                | Some nc \<Rightarrow>
                    (\<forall>message. next_class_text nc = Inr message \<longrightarrow>
                       (Send from_number message, True)
                         \<in> set (trace (snd (whatsapp_webhook env req database))))))"
proof (intro conjI impI allI)
  fix ev ok
  let ?s1 = "\<lparr>db = database, trace = [(DbGet (''admins/'' @ py_str from_number), True)]\<rparr>"
  assume "(ev, ok) \<in> set (trace (snd (whatsapp_webhook env req database)))"
  then consider "ev = DbGet (''admins/'' @ py_str from_number)"
    | "(ev, ok) \<in> set (trace (snd (next_class_query env from_number ?s1)))"
    by (auto simp: whatsapp_webhook_message[OF assms(1-4)] route_next_class[OF assms(5)]
          split: if_splits)
  then show "\<not> scans_other_classes ev"
  proof cases
    case 1
    then show ?thesis by simp
  next
    case 2
    from emitsD[OF next_class_query_scans_default 2] show ?thesis by auto
  qed
next
  let ?s1 = "\<lparr>db = database, trace = [(DbGet (''admins/'' @ py_str from_number), True)]\<rparr>"
  assume h: "\<not> illegal_path (''admins/'' @ py_str from_number) \<and> (\<forall>n. \<not> faults env n)
           \<and> or_empty_dict (db_get database (segments ''classes/SE'')) = JObj items"
  then have w: "snd (whatsapp_webhook env req database) = snd (next_class_query env from_number ?s1)"
    by (simp add: whatsapp_webhook_message[OF assms(1-4)] route_next_class[OF assms(5)])
  from h have "\<forall>n. \<not> faults env n"
    by simp
  moreover from h have "or_empty_dict (db_get (db ?s1) [''classes'', ''SE'']) = JObj items"
    by (simp add: segments_classes_SE)
  moreover from h have "\<not> illegal_path (py_str from_number)"
    by simp
  ultimately obtain mid where t: "trace (snd (next_class_query env from_number ?s1)) =
           trace ?s1 @ mid @ [(DbGet ''classes/SE'', True)] @
             (case scan_classes (today env) items None of
                None \<Rightarrow> [(Send from_number ''No upcoming classes found.'', True)]
              | Some nc \<Rightarrow>
                  (case next_class_text nc of
                     Inl e \<Rightarrow> []
                   | Inr message \<Rightarrow> [(Send from_number message, True)]))"
    using next_class_query_quiet[of env ?s1 items from_number] by blast
  show "(DbGet ''classes/SE'', True) \<in> set (trace (snd (whatsapp_webhook env req database)))"
    unfolding w t by simp
  show "case scan_classes (today env) items None of
          None \<Rightarrow>
            (Send from_number ''No upcoming classes found.'', True)
              \<in> set (trace (snd (whatsapp_webhook env req database)))
        | Some nc \<Rightarrow>
            (\<forall>message. next_class_text nc = Inr message \<longrightarrow>
               (Send from_number message, True)
                 \<in> set (trace (snd (whatsapp_webhook env req database))))"
    unfolding w t by (simp split: option.splits)
qed

theorem next_class_always_scans_default_department_witness:
  "inbound_message (delivery (JStr ''233200000002'') ''  Next Class '')
     = Some (JStr ''233200000002'', ''Next Class'')
   \<and> py_lower ''Next Class'' \<in> set [''next class'', ''when is my next class?'']
   \<and> \<not> illegal_path (''admins/'' @ py_str (JStr ''233200000002''))
   \<and> fst (get_department quiet_env (JStr ''233200000002'') (start sample_db)) = Inr (JStr ''EE'')
   \<and> or_empty_dict (db_get sample_db (segments ''classes/SE'')) = JObj se_classes
   \<and> (DbGet ''classes/SE'', True)
       \<in> set (trace (snd (whatsapp_webhook quiet_env
                (post_json (delivery (JStr ''233200000002'') ''  Next Class '')) sample_db)))
   \<and> \<not> scans_other_classes (DbGet ''classes/SE'')
   \<and> scans_other_classes (DbGet ''classes/EE'')
   \<and> (DbGet ''classes/EE'', True)
       \<notin> set (trace (snd (whatsapp_webhook quiet_env
                (post_json (delivery (JStr ''233200000002'') ''  Next Class '')) sample_db)))"
proof -
  let ?d = "delivery (JStr ''233200000002'') ''  Next Class ''"
  have r: "http_method (post_json ?d) = POST" "is_json (post_json ?d)"
    "json_body (post_json ?d) = Some ?d"
    by (simp_all add: post_json_def)
  have i: "inbound_message ?d = Some (JStr ''233200000002'', ''Next Class'')"
    by (simp add: inbound_message_def delivery_def envelope_messages_def bindE_def py_strip_def
          py_isspace_def)
  have p: "py_lower ''Next Class'' \<in> set [''next class'', ''when is my next class?'']"
    by code_simp
  have g: "fst (get_department quiet_env (JStr ''233200000002'') (start sample_db)) = Inr (JStr ''EE'')"
    by code_simp
  have c: "or_empty_dict (db_get sample_db (segments ''classes/SE'')) = JObj se_classes"
    by code_simp
  have q: "\<forall>n. \<not> faults quiet_env n"
    by (simp add: quiet_env_def)
  have v: "\<not> illegal_path (''admins/'' @ py_str (JStr ''233200000002''))"
    by code_simp
  note inst = next_class_always_scans_default_department[OF r i p,
      where env = quiet_env and database = sample_db and items = se_classes]
  from inst v q c have one: "(DbGet ''classes/SE'', True)
       \<in> set (trace (snd (whatsapp_webhook quiet_env (post_json ?d) sample_db)))"
    by blast
  have s: "\<not> scans_other_classes (DbGet ''classes/SE'')" "scans_other_classes (DbGet ''classes/EE'')"
    by simp_all
  from inst s(2) have two: "(DbGet ''classes/EE'', True)
       \<notin> set (trace (snd (whatsapp_webhook quiet_env (post_json ?d) sample_db)))"
    by blast
  from i p v g c one s two show ?thesis by blast
qed

text \<open>
  C5, at a sender whose record has the default department and a second field: the
  branch writes the record again and the second field is gone.
\<close>

theorem next_class_rewrites_registered_student:
  "db_get sample_db (segments ''students/233200000003'')
     = JObj [(''department'', JStr ''SE''), (''name'', JStr ''Ada'')]
   \<and> fst (get_department quiet_env (JStr ''233200000003'') (start sample_db)) = Inr (JStr ''SE'')
   \<and> trace (snd (whatsapp_webhook quiet_env
               (post_json (delivery (JStr ''233200000003'') ''next class'')) sample_db))
       = [(DbGet ''admins/233200000003'', True),
          (DbGet ''students/233200000003'', True),
          (DbSet ''students/233200000003'' (JObj [(''department'', JStr ''SE'')]), True),
          (DbGet ''classes/SE'', True),
          (Send (JStr ''233200000003'')
             ''Your next class is cs101 on 2025-02-01 at 09:00 with Dr Jones.'', True)]
   \<and> db_get (db (snd (whatsapp_webhook quiet_env
                  (post_json (delivery (JStr ''233200000003'') ''next class'')) sample_db)))
        (segments ''students/233200000003'')
       = JObj [(''department'', JStr ''SE'')]"
  by code_simp

section \<open>The introduction\<close>

subsection \<open>The calls of each branch\<close>

lemma next_class_text_start:
  "next_class_text nc = Inr message \<Longrightarrow> \<not> startswith message ''Hello!''"
  by (auto simp: next_class_text_def bindE_def split: sum.splits)

lemma course_text_start:
  "bindE r (course_text body) = Inr message \<Longrightarrow> \<not> startswith message ''Hello!''"
  by (auto simp: course_text_def bindE_def split: sum.splits)

lemma admin_update_emits:
  assumes sets: "\<And>p v. \<not> startswith p ''users/'' \<Longrightarrow> P (DbSet p v)"
    and sends: "\<And>to m. \<not> startswith m ''Hello!'' \<Longrightarrow> P (Send to m)"
  shows "emits P (admin_update env from_number body)"
  unfolding admin_update_def
proof (rule emits_try_except)
  show "emits P (case py_split body of
          cmd # dept # code # date # time # lecturer \<Rightarrow>
            bindA
              (ref_set env (''classes/'' @ dept @ ''/'' @ code)
                 (JObj [(''date'', JStr date), (''time'', JStr time),
                        (''lecturer'', JStr (py_join '' '' lecturer))]))
              (\<lambda>u. send_whatsapp_message env from_number (''Schedule updated for '' @ code @ ''.''))
        | _ \<Rightarrow> raiseA ValueError)"
    by (auto split: list.splits intro!: emits_bindA emits_ref_set emits_send sets sends)
next
  fix e
  show "emits P (send_whatsapp_message env from_number ''Error: Invalid adminupdate format.'')"
    by (rule emits_send, rule sends) simp
qed

lemma next_class_query_emits:
  assumes gets: "\<And>p. \<not> startswith p ''users/'' \<Longrightarrow> P (DbGet p)"
    and sets: "\<And>p v. \<not> startswith p ''users/'' \<Longrightarrow> P (DbSet p v)"
    and sends: "\<And>to m. \<not> startswith m ''Hello!'' \<Longrightarrow> P (Send to m)"
  shows "emits P (next_class_query env from_number)"
  unfolding next_class_query_def
  by (intro emits_bindA emits_get_department emits_get_next_class)
     (auto intro!: emits_ref_set emits_send emits_bindA_liftE gets sets sends
           dest: next_class_text_start)

lemma my_courses_query_emits:
  assumes gets: "\<And>p. \<not> startswith p ''users/'' \<Longrightarrow> P (DbGet p)"
    and sends: "\<And>to m. \<not> startswith m ''Hello!'' \<Longrightarrow> P (Send to m)"
  shows "emits P (my_courses_query env from_number)"
  unfolding my_courses_query_def
  by (intro emits_bindA emits_get_department emits_ref_get)
     (auto intro!: emits_send emits_bindA_liftE gets sends)

lemma ask_assistant_emits:
  assumes chats: "\<And>b. P (Chat b)"
    and sends: "\<And>to m. \<not> startswith m ''Hello!'' \<Longrightarrow> P (Send to m)"
    and answers: "\<And>to b. P (Send to (py_strip (assistant env b)))"
  shows "emits P (ask_assistant env from_number body)"
  unfolding ask_assistant_def
  by (intro emits_try_except emits_bindA_chat emits_send chats answers sends) simp

lemma course_or_assistant_emits:
  assumes gets: "\<And>p. \<not> startswith p ''users/'' \<Longrightarrow> P (DbGet p)"
    and chats: "\<And>b. P (Chat b)"
    and sends: "\<And>to m. \<not> startswith m ''Hello!'' \<Longrightarrow> P (Send to m)"
    and answers: "\<And>to b. P (Send to (py_strip (assistant env b)))"
  shows "emits P (course_or_assistant env from_number body)"
  unfolding course_or_assistant_def
  by (intro emits_bindA emits_get_department emits_ref_get emits_bindA_liftE)
     (auto intro!: emits_send emits_bindA_liftE gets sends ask_assistant_emits chats answers
           dest: course_text_start)

lemma route_emits:
  assumes gets: "\<And>p. \<not> startswith p ''users/'' \<Longrightarrow> P (DbGet p)"
    and sets: "\<And>p v. \<not> startswith p ''users/'' \<Longrightarrow> P (DbSet p v)"
    and chats: "\<And>b. P (Chat b)"
    and sends: "\<And>to m. \<not> startswith m ''Hello!'' \<Longrightarrow> P (Send to m)"
    and answers: "\<And>to b. P (Send to (py_strip (assistant env b)))"
  shows "emits P (route env from_number body is_admin)"
  unfolding route_def
  by (auto intro!: emits_bindA admin_update_emits next_class_query_emits my_courses_query_emits
        course_or_assistant_emits assms)

lemma whatsapp_webhook_emits:
  assumes gets: "\<And>p. \<not> startswith p ''users/'' \<Longrightarrow> P (DbGet p)"
    and sets: "\<And>p v. \<not> startswith p ''users/'' \<Longrightarrow> P (DbSet p v)"
    and chats: "\<And>b. P (Chat b)"
    and sends: "\<And>to m. \<not> startswith m ''Hello!'' \<Longrightarrow> P (Send to m)"
    and answers: "\<And>to b. P (Send to (py_strip (assistant env b)))"
    and "(ev, ok) \<in> set (trace (snd (whatsapp_webhook env req database)))"
  shows "P ev"
proof -
  have quiet: "trace (snd (whatsapp_webhook env req database)) = [] \<Longrightarrow> P ev"
    using assms(6) by simp
  show ?thesis
  proof (cases "http_method req = POST \<and> is_json req \<and> json_body req \<noteq> None")
    case False
    then have "trace (snd (whatsapp_webhook env req database)) = []"
      by (cases "http_method req")
         (auto simp: whatsapp_webhook_def get_json_def Let_def split: option.splits)
    then show ?thesis by (rule quiet)
  next
    case True
    then obtain data where d: "http_method req = POST" "is_json req" "json_body req = Some data"
      by auto
    show ?thesis
    proof (cases "inbound_message data")
      case None
      with process_payload_no_message[OF None, of env "start database"]
      have "trace (snd (whatsapp_webhook env req database)) = []"
        by (simp add: whatsapp_webhook_post[OF d] start_def)
      then show ?thesis by (rule quiet)
    next
      case (Some fb)
      obtain f b where fb: "fb = (f, b)" by (cases fb)
      have "emits P (bindA (ref_get env (''admins/'' @ py_str f))
                      (\<lambda>admin_flag. route env f b (admin_flag = JBool True)))"
        by (intro emits_bindA emits_ref_get route_emits assms(1-5)) simp_all
      moreover have "snd (whatsapp_webhook env req database)
          = snd (bindA (ref_get env (''admins/'' @ py_str f))
                      (\<lambda>admin_flag. route env f b (admin_flag = JBool True)) (start database))"
        using Some fb by (simp add: whatsapp_webhook_post[OF d] process_payload_message)
      ultimately have "(ev, ok) \<in> set (trace (start database)) \<or> P ev"
        using assms(6) emitsD by metis
      then show ?thesis by (simp add: start_def)
    qed
  qed
qed

text \<open>
  C9: for every request the introduction never runs. Its flag \<open>users/{id}/introduced\<close>
  is neither read nor written; the welcome text is not sent, unless the assistant
  itself answers with that very text; and the reason is that the chain of branches
  never runs on to the statement after it: every branch returns or raises.
\<close>

theorem introduction_never_fires:
  "(\<forall>ev ok. (ev, ok) \<in> set (trace (snd (whatsapp_webhook env req database)))
       \<longrightarrow> \<not> touches_introduced ev)
   \<and> ((\<forall>b. py_strip (assistant env b) \<noteq> intro_message) \<longrightarrow>
        (\<forall>to ok. (Send to intro_message, ok)
                    \<notin> set (trace (snd (whatsapp_webhook env req database)))))
   \<and> (\<forall>from_number body is_admin s. fst (route env from_number body is_admin s) \<noteq> Inr None)"
proof (intro conjI allI impI)
  fix ev ok
  assume "(ev, ok) \<in> set (trace (snd (whatsapp_webhook env req database)))"
  then show "\<not> touches_introduced ev"
    by (rule whatsapp_webhook_emits[where P = "\<lambda>ev. \<not> touches_introduced ev", rotated 5]) simp_all
next
  fix to ok
  assume a: "\<forall>b. py_strip (assistant env b) \<noteq> intro_message"
  show "(Send to intro_message, ok) \<notin> set (trace (snd (whatsapp_webhook env req database)))"
  proof
    assume "(Send to intro_message, ok) \<in> set (trace (snd (whatsapp_webhook env req database)))"
    then have "\<forall>t. Send to intro_message \<noteq> Send t intro_message"
      by (rule whatsapp_webhook_emits[where P = "\<lambda>ev. \<forall>t. ev \<noteq> Send t intro_message", rotated 5])
         (use a in \<open>auto simp: intro_message_def\<close>)
    then show False by simp
  qed
next
  fix from_number body is_admin s
  show "fst (route env from_number body is_admin s) \<noteq> Inr None"
    using route_result[of env from_number body is_admin s None "snd (route env from_number body is_admin s)"]
    by (cases "route env from_number body is_admin s") auto
qed

theorem introduction_never_fires_witness:
  "(DbGet ''admins/233200000002'', True)
     \<in> set (trace (snd (whatsapp_webhook quiet_env
              (post_json (delivery (JStr ''233200000002'') ''hello'')) sample_db)))
   \<and> \<not> touches_introduced (DbGet ''admins/233200000002'')
   \<and> (\<forall>b. py_strip (assistant quiet_env b) \<noteq> intro_message)
   \<and> (Send (JStr ''233200000002'') intro_message, True)
       \<notin> set (trace (snd (whatsapp_webhook quiet_env
                (post_json (delivery (JStr ''233200000002'') ''hello'')) sample_db)))
   \<and> fst (route quiet_env (JStr ''233200000002'') ''hello'' False (start sample_db)) \<noteq> Inr None"
proof -
  let ?w = "whatsapp_webhook quiet_env (post_json (delivery (JStr ''233200000002'') ''hello'')) sample_db"
  have a: "(DbGet ''admins/233200000002'', True) \<in> set (trace (snd ?w))"
    by code_simp
  have b: "\<forall>b. py_strip (assistant quiet_env b) \<noteq> intro_message"
    by (simp add: quiet_env_def py_strip_def py_isspace_def intro_message_def)
  note inst = introduction_never_fires[of quiet_env
      "post_json (delivery (JStr ''233200000002'') ''hello'')" sample_db]
  from inst a have c: "\<not> touches_introduced (DbGet ''admins/233200000002'')"
    by blast
  from inst b have d: "(Send (JStr ''233200000002'') intro_message, True) \<notin> set (trace (snd ?w))"
    by blast
  from inst have e: "fst (route quiet_env (JStr ''233200000002'') ''hello'' False (start sample_db)) \<noteq> Inr None"
    by blast
  from a b c d e show ?thesis by blast
qed

subsection \<open>The course lookup\<close>

lemma ask_assistant_trace:
  "trace (snd (ask_assistant env from_number body s)) =
     trace s @
       (if faults env (length (trace s)) then
          [(Chat body, False),
           (Send from_number ''Sorry, I could not process your request right now.'',
            \<not> faults env (Suc (length (trace s))))]
        else if faults env (Suc (length (trace s))) then
          [(Chat body, True),
           (Send from_number (py_strip (assistant env body)), False),
           (Send from_number ''Sorry, I could not process your request right now.'',
            \<not> faults env (Suc (Suc (length (trace s)))))]
        else
          [(Chat body, True), (Send from_number (py_strip (assistant env body)), True)])"
  by (simp add: ask_assistant_def try_except_def bindA_def chat_eq send_eq)

lemma route_course_or_assistant:
  assumes "\<not> (startswith (py_lower body) ''adminupdate'' \<and> is_admin)"
    and "py_lower body \<notin> set [''next class'', ''when is my next class?'']"
    and "py_lower body \<noteq> ''my courses''"
  shows "snd (route env from_number body is_admin s) = snd (course_or_assistant env from_number body s)"
  using assms by (auto simp: route_def bindA_const_state)

lemma course_or_assistant_unknown:
  assumes "\<not> illegal_path (py_str from_number)" and "\<not> illegal_path (py_str dept)"
    and "\<not> faults env (Suc (length (trace s)))"
    and "fst (get_department env from_number s) = Inr dept"
    and "or_empty_dict (db_get (db s) (segments (''classes/'' @ py_str dept))) = JObj classes"
    and "body \<notin> set (map fst classes)"
  shows "snd (course_or_assistant env from_number body s) =
           snd (ask_assistant env from_number body
                  (s\<lparr>trace := trace s @
                        [(DbGet (''students/'' @ py_str from_number), \<not> faults env (length (trace s))),
                         (DbGet (''classes/'' @ py_str dept), True)]\<rparr>))"
  using assms
  by (simp add: course_or_assistant_def bindA_def get_department_eq ref_get_eq liftE_def)

text \<open>
  C10, as amended: the lookup of a course code is exact. When the trimmed text
  differs only in letter case from a course code of the sender's department, is not
  itself a key of that department's class mapping and matches no keyword branch,
  the call after the fetch of the mapping is the assistant call with the text, and
  what is sent is the assistant's answer or the apology, never the class record.
  (The proof needs only that the text is no key of the mapping.)
\<close>

theorem course_lookup_is_case_sensitive:
  assumes "http_method req = POST" and "is_json req" and "json_body req = Some data"
    and "inbound_message data = Some (from_number, body)"
    and "\<not> (startswith (py_lower body) ''adminupdate''
            \<and> db_get database (segments (''admins/'' @ py_str from_number)) = JBool True)"
    and "py_lower body \<notin> set [''next class'', ''when is my next class?'']"
    and "py_lower body \<noteq> ''my courses''"
    and "\<not> faults env 0" and "\<not> faults env 2"
    and "\<not> illegal_path (''admins/'' @ py_str from_number)"
    and "fst (get_department env from_number
               \<lparr>db = database, trace = [(DbGet (''admins/'' @ py_str from_number), True)]\<rparr>) = Inr dept"
    and "\<not> illegal_path (''classes/'' @ py_str dept)"
    and "or_empty_dict (db_get database (segments (''classes/'' @ py_str dept))) = JObj classes"
    and "(code, details) \<in> set classes" and "py_lower code = py_lower body" and "code \<noteq> body"
    and "body \<notin> set (map fst classes)"
  shows "trace (snd (whatsapp_webhook env req database)) =
           [(DbGet (''admins/'' @ py_str from_number), True),
            (DbGet (''students/'' @ py_str from_number), \<not> faults env 1),
            (DbGet (''classes/'' @ py_str dept), True)] @
           (if faults env 3 then
              [(Chat body, False),
               (Send from_number ''Sorry, I could not process your request right now.'',
                \<not> faults env 4)]
            else if faults env 4 then
              [(Chat body, True),
               (Send from_number (py_strip (assistant env body)), False),
               (Send from_number ''Sorry, I could not process your request right now.'',
                \<not> faults env 5)]
            else
              [(Chat body, True), (Send from_number (py_strip (assistant env body)), True)])"
proof -
  let ?s1 = "\<lparr>db = database, trace = [(DbGet (''admins/'' @ py_str from_number), True)]\<rparr>"
  have legal: "\<not> illegal_path (py_str from_number)" "\<not> illegal_path (py_str dept)"
    using assms(10,12) by simp_all
  have w: "snd (whatsapp_webhook env req database) = snd (course_or_assistant env from_number body ?s1)"
    using assms(8) legal route_course_or_assistant[OF assms(5-7)]
    by (simp add: whatsapp_webhook_message[OF assms(1-4)])
  have c: "snd (course_or_assistant env from_number body ?s1) =
           snd (ask_assistant env from_number body
                  (?s1\<lparr>trace := trace ?s1 @
                        [(DbGet (''students/'' @ py_str from_number), \<not> faults env (length (trace ?s1))),
                         (DbGet (''classes/'' @ py_str dept), True)]\<rparr>))"
    using assms(9,13,17) by (intro course_or_assistant_unknown[OF legal _ assms(11)]) (simp_all add: numeral_2_eq_2)
  have n: "Suc (Suc (Suc 0)) = 3" "Suc (Suc (Suc (Suc 0))) = 4" "Suc (Suc (Suc (Suc (Suc 0)))) = 5"
    by simp_all
  show ?thesis
    unfolding w c ask_assistant_trace by (simp add: n)
qed

theorem course_lookup_is_case_sensitive_witness:
  "inbound_message (delivery (JStr ''233200000002'') ''ee201'') = Some (JStr ''233200000002'', ''ee201'')
   \<and> \<not> illegal_path (''admins/'' @ py_str (JStr ''233200000002''))
   \<and> \<not> illegal_path (''classes/'' @ py_str (JStr ''EE''))
   \<and> fst (get_department quiet_env (JStr ''233200000002'')
            \<lparr>db = sample_db, trace = [(DbGet (''admins/'' @ py_str (JStr ''233200000002'')), True)]\<rparr>)
       = Inr (JStr ''EE'')
   \<and> or_empty_dict (db_get sample_db (segments (''classes/'' @ py_str (JStr ''EE''))))
       = JObj [(''EE201'', JObj [(''date'', JStr ''2025-01-20''), (''time'', JStr ''13:00''),
                                 (''lecturer'', JStr ''Dr Volta'')])]
   \<and> py_lower ''EE201'' = py_lower ''ee201'' \<and> ''EE201'' \<noteq> ''ee201''
   \<and> trace (snd (whatsapp_webhook quiet_env
               (post_json (delivery (JStr ''233200000002'') ''ee201'')) sample_db)) =
           [(DbGet (''admins/'' @ py_str (JStr ''233200000002'')), True),
            (DbGet (''students/'' @ py_str (JStr ''233200000002'')), \<not> faults quiet_env 1),
            (DbGet (''classes/'' @ py_str (JStr ''EE'')), True)] @
           (if faults quiet_env 3 then
              [(Chat ''ee201'', False),
               (Send (JStr ''233200000002'') ''Sorry, I could not process your request right now.'',
                \<not> faults quiet_env 4)]
            else if faults quiet_env 4 then
              [(Chat ''ee201'', True),
               (Send (JStr ''233200000002'') (py_strip (assistant quiet_env ''ee201'')), False),
               (Send (JStr ''233200000002'') ''Sorry, I could not process your request right now.'',
                \<not> faults quiet_env 5)]
            else
              [(Chat ''ee201'', True),
               (Send (JStr ''233200000002'') (py_strip (assistant quiet_env ''ee201'')), True)])"
proof -
  let ?f = "JStr ''233200000002''"
  let ?d = "delivery ?f ''ee201''"
  let ?cl = "[(''EE201'', JObj [(''date'', JStr ''2025-01-20''), (''time'', JStr ''13:00''),
                                 (''lecturer'', JStr ''Dr Volta'')])]"
  have r: "http_method (post_json ?d) = POST" "is_json (post_json ?d)"
    "json_body (post_json ?d) = Some ?d"
    by (simp_all add: post_json_def)
  have i: "inbound_message ?d = Some (?f, ''ee201'')"
    by (simp add: inbound_message_def delivery_def envelope_messages_def bindE_def py_strip_def
          py_isspace_def)
  have k: "\<not> (startswith (py_lower ''ee201'') ''adminupdate''
            \<and> db_get sample_db (segments (''admins/'' @ py_str ?f)) = JBool True)"
    "py_lower ''ee201'' \<notin> set [''next class'', ''when is my next class?'']"
    "py_lower ''ee201'' \<noteq> ''my courses''"
    by code_simp+
  have q: "\<not> faults quiet_env 0" "\<not> faults quiet_env 2"
    by (simp_all add: quiet_env_def)
  have v: "\<not> illegal_path (''admins/'' @ py_str ?f)"
    and v': "\<not> illegal_path (''classes/'' @ py_str (JStr ''EE''))"
    by code_simp+
  have g: "fst (get_department quiet_env ?f
            \<lparr>db = sample_db, trace = [(DbGet (''admins/'' @ py_str ?f), True)]\<rparr>) = Inr (JStr ''EE'')"
    by code_simp
  have c: "or_empty_dict (db_get sample_db (segments (''classes/'' @ py_str (JStr ''EE'')))) = JObj ?cl"
    by code_simp
  have e: "(''EE201'', JObj [(''date'', JStr ''2025-01-20''), (''time'', JStr ''13:00''),
                                 (''lecturer'', JStr ''Dr Volta'')]) \<in> set ?cl"
    "py_lower ''EE201'' = py_lower ''ee201''" "''EE201'' \<noteq> ''ee201''"
    "''ee201'' \<notin> set (map fst ?cl)"
    by code_simp+
  from course_lookup_is_case_sensitive[OF r i k q v g v' c e] i v v' g c e(2,3) show ?thesis by blast
qed

text \<open>
  The claim as stated lets the text be a course code itself. The sample department
  has the codes \<open>CS101\<close> and \<open>cs101\<close>: the text \<open>cs101\<close> differs only in letter case
  from the code \<open>CS101\<close>, matches no keyword, and is answered with the record of
  \<open>cs101\<close>; the assistant is not called.
\<close>

theorem case_variant_that_is_a_code_gets_details:
  "py_lower ''cs101'' = py_lower ''CS101'' \<and> ''cs101'' \<noteq> ''CS101''
   \<and> ''CS101'' \<in> set (map fst se_classes)
   \<and> fst (get_department quiet_env (JStr ''233200000003'') (start sample_db)) = Inr (JStr ''SE'')
   \<and> or_empty_dict (db_get sample_db (segments ''classes/SE'')) = JObj se_classes
   \<and> whatsapp_webhook quiet_env (post_json (delivery (JStr ''233200000003'') ''cs101'')) sample_db
       = ((Text ''OK'', 200),
          \<lparr>db = sample_db,
            trace = [(DbGet ''admins/233200000003'', True),
                     (DbGet ''students/233200000003'', True),
                     (DbGet ''classes/SE'', True),
                     (Send (JStr ''233200000003'')
                        (''Course: cs101'' @ [CHR 0x0A] @ ''Date: 2025-02-01'' @ [CHR 0x0A]
                         @ ''Time: 09:00'' @ [CHR 0x0A] @ ''Lecturer: Dr Jones''), True)]\<rparr>)"
  by code_simp

section \<open>The registration endpoint\<close>

text \<open>
  C6, as amended: for a registration request whose JSON body is an object, when
  the \<open>whatsapp\<close> or the \<open>department\<close> field is missing or has a false value
  (\<open>null\<close>, \<open>false\<close>, zero, an empty string, list or object) the answer is 400
  with the error body and no call to the store is made; when both fields are present
  with true values and the write completes, the record under the student key is
  exactly the department given and the answer is 200 with the confirmation body.
\<close>

theorem register_student_needs_truthy_fields:
  assumes "is_json req" and "json_body req = Some (JObj kvs)"
  shows "((case map_of kvs ''whatsapp'' of None \<Rightarrow> True | Some w \<Rightarrow> \<not> truthy w)
          \<or> (case map_of kvs ''department'' of None \<Rightarrow> True | Some d \<Rightarrow> \<not> truthy d) \<longrightarrow>
            register_student env req database =
              ((Json (JObj [(''error'', JStr ''Missing whatsapp or department'')]), 400),
               \<lparr>db = database, trace = []\<rparr>))
       \<and> (map_of kvs ''whatsapp'' = Some whatsapp \<and> truthy whatsapp
          \<and> map_of kvs ''department'' = Some department \<and> truthy department
          \<and> \<not> illegal_path (''students/'' @ py_str whatsapp) \<and> \<not> faults env 0 \<longrightarrow>
            register_student env req database =
              ((Json (JObj [(''message'', JStr ''Student registered.'')]), 200),
               \<lparr>db = db_set database (segments (''students/'' @ py_str whatsapp))
                       (JObj [(''department'', department)]),
                 trace = [(DbSet (''students/'' @ py_str whatsapp)
                             (JObj [(''department'', department)]), True)]\<rparr>)
            \<and> db_get (db (snd (register_student env req database)))
                 (segments (''students/'' @ py_str whatsapp))
                = JObj [(''department'', department)])"
proof (intro conjI impI)
  assume "(case map_of kvs ''whatsapp'' of None \<Rightarrow> True | Some w \<Rightarrow> \<not> truthy w)
          \<or> (case map_of kvs ''department'' of None \<Rightarrow> True | Some d \<Rightarrow> \<not> truthy d)"
  then show "register_student env req database =
              ((Json (JObj [(''error'', JStr ''Missing whatsapp or department'')]), 400),
               \<lparr>db = database, trace = []\<rparr>)"
    using assms
    by (auto simp: register_student_def get_json_def returnA_def split: option.splits)
next
  assume h: "map_of kvs ''whatsapp'' = Some whatsapp \<and> truthy whatsapp
          \<and> map_of kvs ''department'' = Some department \<and> truthy department
          \<and> \<not> illegal_path (''students/'' @ py_str whatsapp) \<and> \<not> faults env 0"
  with assms show w: "register_student env req database =
              ((Json (JObj [(''message'', JStr ''Student registered.'')]), 200),
               \<lparr>db = db_set database (segments (''students/'' @ py_str whatsapp))
                       (JObj [(''department'', department)]),
                 trace = [(DbSet (''students/'' @ py_str whatsapp)
                             (JObj [(''department'', department)]), True)]\<rparr>)"
    by (simp add: register_student_def get_json_def returnA_def bindA_def liftE_def ref_set_eq)
  show "db_get (db (snd (register_student env req database)))
                 (segments (''students/'' @ py_str whatsapp))
                = JObj [(''department'', department)]"
    unfolding w by (simp add: db_get_db_set_same)
qed

theorem register_student_needs_truthy_fields_witness:
  "is_json (post_json (JObj [(''whatsapp'', JStr ''233200000009''), (''department'', JStr ''EE'')]))
   \<and> map_of [(''whatsapp'', JStr ''233200000009''), (''department'', JStr ''EE'')] ''whatsapp''
       = Some (JStr ''233200000009'')
   \<and> truthy (JStr ''233200000009'') \<and> truthy (JStr ''EE'')
   \<and> \<not> illegal_path (''students/'' @ py_str (JStr ''233200000009'')) \<and> \<not> faults quiet_env 0
   \<and> db_get (db (snd (register_student quiet_env
          (post_json (JObj [(''whatsapp'', JStr ''233200000009''), (''department'', JStr ''EE'')]))
          sample_db)))
        (segments (''students/'' @ py_str (JStr ''233200000009'')))
       = JObj [(''department'', JStr ''EE'')]
   \<and> map_of [(''department'', JStr ''EE'')] ''whatsapp'' = None
   \<and> register_student quiet_env (post_json (JObj [(''department'', JStr ''EE'')])) sample_db
       = ((Json (JObj [(''error'', JStr ''Missing whatsapp or department'')]), 400),
          \<lparr>db = sample_db, trace = []\<rparr>)"
proof -
  let ?kvs = "[(''whatsapp'', JStr ''233200000009''), (''department'', JStr ''EE'')]"
  have r: "\<And>j. is_json (post_json j)" "\<And>j. json_body (post_json j) = Some j"
    by (simp_all add: post_json_def)
  have m: "map_of ?kvs ''whatsapp'' = Some (JStr ''233200000009'')"
    "map_of ?kvs ''department'' = Some (JStr ''EE'')"
    "truthy (JStr ''233200000009'')" "truthy (JStr ''EE'')"
    by simp_all
  have q: "\<not> faults quiet_env 0"
    by (simp add: quiet_env_def)
  have v: "\<not> illegal_path (''students/'' @ py_str (JStr ''233200000009''))"
    by code_simp
  from register_student_needs_truthy_fields[OF r(1) r(2), where kvs = ?kvs and env = quiet_env
      and database = sample_db and whatsapp = "JStr ''233200000009''" and department = "JStr ''EE''"]
    m v q
  have one: "db_get (db (snd (register_student quiet_env (post_json (JObj ?kvs)) sample_db)))
        (segments (''students/'' @ py_str (JStr ''233200000009'')))
       = JObj [(''department'', JStr ''EE'')]"
    by blast
  have n: "map_of [(''department'', JStr ''EE'')] ''whatsapp'' = None"
    by simp
  from register_student_needs_truthy_fields[OF r(1) r(2),
      where kvs = "[(''department'', JStr ''EE'')]" and env = quiet_env and database = sample_db] n
  have two: "register_student quiet_env (post_json (JObj [(''department'', JStr ''EE'')])) sample_db
       = ((Json (JObj [(''error'', JStr ''Missing whatsapp or department'')]), 400),
          \<lparr>db = sample_db, trace = []\<rparr>)"
    by simp
  from r(1) m v q one n two show ?thesis by blast
qed

text \<open>
  The claim as stated asks only that both fields are present. A field that is
  present and empty is refused by the guard of line 204, as a missing one is.
\<close>

theorem register_student_refuses_empty_department:
  "map_of [(''whatsapp'', JStr ''233200000009''), (''department'', JStr '''')] ''whatsapp''
     = Some (JStr ''233200000009'')
   \<and> map_of [(''whatsapp'', JStr ''233200000009''), (''department'', JStr '''')] ''department''
     = Some (JStr '''')
   \<and> register_student quiet_env
        (post_json (JObj [(''whatsapp'', JStr ''233200000009''), (''department'', JStr '''')]))
        sample_db
       = ((Json (JObj [(''error'', JStr ''Missing whatsapp or department'')]), 400),
          \<lparr>db = sample_db, trace = []\<rparr>)"
  by (simp add: register_student_def get_json_def post_json_def returnA_def)

end
